theory Spec2Isabelle
  imports Complex_Main "HOL-Library.Char_ord" "HOL-Library.List_Lexorder"
begin

section \<open>JavaScript values reaching the handlers\<close>

text \<open>
  \<open>express.json()\<close> parses the request body with \<open>JSON.parse\<close>; a handler reads
  \<open>req.body.<field>\<close>, which is \<open>undefined\<close> for a field the body does not have.
  TypeScript's annotations are erased at run time, so a field of a stored object holds
  whatever JavaScript value was assigned to it.

  A number read from JSON is a finite double or, for a literal beyond the double range,
  an infinity; \<open>NaN\<close> is never read from JSON. A finite double is modelled by the real
  number it denotes (so \<open>-0\<close> is \<open>0\<close>).
\<close>

datatype number = Finite real | PosInfinity | NegInfinity

datatype jsvalue =
    JUndefined
  | JNull
  | JBool bool
  | JNumber number
  | JString string
  | JArray "jsvalue list"
  | JObject "(string \<times> jsvalue) list"

text \<open>\<open>req.body\<close> as its property lookup: \<open>body ''name''\<close> is \<open>req.body.name\<close>.\<close>

type_synonym body = "string \<Rightarrow> jsvalue"

text \<open>The body with no field at all, \<open>{}\<close>.\<close>

definition empty_body :: body where
  "empty_body = (\<lambda>k. JUndefined)"

text \<open>\<open>!v\<close> is \<open>\<not> truthy v\<close>.\<close>

fun truthy :: "jsvalue \<Rightarrow> bool" where
  "truthy JUndefined = False"
| "truthy JNull = False"
| "truthy (JBool b) = b"
| "truthy (JNumber n) = (n \<noteq> Finite 0)"
| "truthy (JString s) = (s \<noteq> [])"
| "truthy (JArray xs) = True"
| "truthy (JObject kvs) = True"

fun typeof :: "jsvalue \<Rightarrow> string" where
  "typeof JUndefined = ''undefined''"
| "typeof JNull = ''object''"
| "typeof (JBool b) = ''boolean''"
| "typeof (JNumber n) = ''number''"
| "typeof (JString s) = ''string''"
| "typeof (JArray xs) = ''object''"
| "typeof (JObject kvs) = ''object''"

subsection \<open>Dates\<close>

text \<open>
  A \<open>Date\<close> object holds a time value, an integral number of milliseconds since the
  epoch, or \<open>NaN\<close> (an "Invalid Date").
\<close>

datatype Date = Date int | Invalid_Date

text \<open>
  What a request gets from outside the repository: the identifier returned by its call of
  \<open>uuidv4()\<close>, the clock (\<open>clock e k\<close> is the time value of the \<open>k\<close>-th \<open>new Date()\<close>
  of the request, counting from 0), and two built-ins of the JavaScript runtime whose
  results depend on the implementation or on the formatting of doubles: \<open>Date.parse\<close>
  and the conversion of a number to a string.
\<close>

record env =
  uuidv4 :: string
  clock :: "nat \<Rightarrow> int"
  Date_parse :: "string \<Rightarrow> Date"
  Number_toString :: "number \<Rightarrow> string"

text \<open>
  ECMAScript's \<open>TimeClip\<close>: a time value beyond \<open>8.64e15\<close> ms in magnitude is \<open>NaN\<close>,
  any other is truncated towards zero.
\<close>

fun TimeClip :: "number \<Rightarrow> Date" where
  "TimeClip (Finite x) =
     (if \<bar>x\<bar> > 8640000000000000 then Invalid_Date
      else Date (if 0 \<le> x then \<lfloor>x\<rfloor> else \<lceil>x\<rceil>))"
| "TimeClip PosInfinity = Invalid_Date"
| "TimeClip NegInfinity = Invalid_Date"

text \<open>
  ECMAScript's \<open>ToString\<close> on a value read from JSON; \<open>None\<close> is a thrown \<open>TypeError\<close>.
  An array is joined with commas, \<open>undefined\<close> and \<open>null\<close> elements giving the empty
  string. An object has no callable property of its own, so it is converted by the
  inherited \<open>toString\<close>, unless a property of its own named \<open>toString\<close> hides that one:
  then no conversion is left and a \<open>TypeError\<close> is thrown. \<open>ToPrimitive\<close> of an array or
  object gives the same string.
\<close>

fun ToString :: "(number \<Rightarrow> string) \<Rightarrow> jsvalue \<Rightarrow> string option"
and join_elements :: "(number \<Rightarrow> string) \<Rightarrow> jsvalue list \<Rightarrow> string option" where
  "ToString nts JUndefined = Some ''undefined''"
| "ToString nts JNull = Some ''null''"
| "ToString nts (JBool b) = Some (if b then ''true'' else ''false'')"
| "ToString nts (JNumber n) = Some (nts n)"
| "ToString nts (JString s) = Some s"
| "ToString nts (JArray xs) = join_elements nts xs"
| "ToString nts (JObject kvs) =
     (if ''toString'' \<in> set (map fst kvs) then None else Some ''[object Object]'')"
| "join_elements nts [] = Some ''''"
| "join_elements nts (x # xs) =
     (case (if x = JUndefined \<or> x = JNull then Some '''' else ToString nts x) of
        None \<Rightarrow> None
      | Some s \<Rightarrow>
          (case join_elements nts xs of
             None \<Rightarrow> None
           | Some r \<Rightarrow> Some (if xs = [] then s else s @ '','' @ r)))"

text \<open>
  \<open>new Date(v)\<close>; \<open>None\<close> is a thrown \<open>TypeError\<close>. A string is parsed, a number is
  clipped, a boolean or \<open>null\<close> is first converted to a number, \<open>undefined\<close> gives
  \<open>NaN\<close>, an array or object is first converted to a string.
\<close>

fun new_Date :: "env \<Rightarrow> jsvalue \<Rightarrow> Date option" where
  "new_Date e (JString s) = Some (Date_parse e s)"
| "new_Date e (JNumber n) = Some (TimeClip n)"
| "new_Date e (JBool b) = Some (TimeClip (Finite (if b then 1 else 0)))"
| "new_Date e JNull = Some (TimeClip (Finite 0))"
| "new_Date e JUndefined = Some Invalid_Date"
| "new_Date e v = map_option (Date_parse e) (ToString (Number_toString e) v)"

section \<open>The entity classes\<close>

record Member =
  id' :: string
  name :: jsvalue
  contact :: jsvalue
  membershipStatus :: jsvalue
  createdAt :: Date

record Event =
  id' :: string
  title :: jsvalue
  description :: jsvalue
  dateTime :: Date
  location :: jsvalue
  createdAt :: Date

record Donation =
  id' :: string
  donorId :: jsvalue
  amount :: jsvalue
  createdAt :: Date

record Contribution =
  id' :: string
  memberId :: jsvalue
  type :: jsvalue
  amount :: jsvalue
  description :: jsvalue
  commitmentDate :: Date
  fulfillmentDate :: "Date option"
  createdAt :: Date

record PrayerRequest =
  id' :: string
  memberId :: jsvalue
  request :: jsvalue
  createdAt :: Date

record Content =
  id' :: string
  type :: jsvalue
  title :: jsvalue
  content :: jsvalue
  createdAt :: Date

text \<open>The constructors. Each calls \<open>uuidv4()\<close> once and reads the clock for \<open>createdAt\<close>.\<close>

definition new_Member :: "env \<Rightarrow> jsvalue \<Rightarrow> jsvalue \<Rightarrow> jsvalue \<Rightarrow> Member" where
  "new_Member e name' contact' membershipStatus' =
     \<lparr>Member.id' = uuidv4 e, name = name', contact = contact',
      membershipStatus = membershipStatus', Member.createdAt = Date (clock e 0)\<rparr>"

definition new_Event :: "env \<Rightarrow> jsvalue \<Rightarrow> jsvalue \<Rightarrow> Date \<Rightarrow> jsvalue \<Rightarrow> Event" where
  "new_Event e title' description' dateTime' location' =
     \<lparr>Event.id' = uuidv4 e, Event.title = title', Event.description = description',
      dateTime = dateTime', location = location', Event.createdAt = Date (clock e 0)\<rparr>"

definition new_Donation :: "env \<Rightarrow> jsvalue \<Rightarrow> jsvalue \<Rightarrow> Donation" where
  "new_Donation e donorId' amount' =
     \<lparr>Donation.id' = uuidv4 e, donorId = donorId', Donation.amount = amount',
      Donation.createdAt = Date (clock e 0)\<rparr>"

text \<open>
  \<open>commitmentDate || new Date()\<close>: a \<open>Date\<close> object is truthy (also an invalid one), so
  the clock is read for the commitment date exactly when the argument is \<open>undefined\<close>
  (\<open>None\<close>), and then \<open>createdAt\<close> is the second reading of the clock.
\<close>

definition new_Contribution ::
  "env \<Rightarrow> jsvalue \<Rightarrow> jsvalue \<Rightarrow> jsvalue \<Rightarrow> jsvalue \<Rightarrow> Date option \<Rightarrow> Contribution" where
  "new_Contribution e memberId' type' amount' description' commitmentDate' =
     \<lparr>Contribution.id' = uuidv4 e, Contribution.memberId = memberId',
      Contribution.type = type', Contribution.amount = amount',
      Contribution.description = description',
      commitmentDate = (case commitmentDate' of Some d \<Rightarrow> d | None \<Rightarrow> Date (clock e 0)),
      fulfillmentDate = None,
      Contribution.createdAt =
        (case commitmentDate' of Some d \<Rightarrow> Date (clock e 0) | None \<Rightarrow> Date (clock e 1))\<rparr>"

definition new_PrayerRequest :: "env \<Rightarrow> jsvalue \<Rightarrow> jsvalue \<Rightarrow> PrayerRequest" where
  "new_PrayerRequest e memberId' request' =
     \<lparr>PrayerRequest.id' = uuidv4 e, PrayerRequest.memberId = memberId', request = request',
      PrayerRequest.createdAt = Date (clock e 0)\<rparr>"

definition new_Content :: "env \<Rightarrow> jsvalue \<Rightarrow> jsvalue \<Rightarrow> jsvalue \<Rightarrow> Content" where
  "new_Content e type' title' content' =
     \<lparr>Content.id' = uuidv4 e, Content.type = type', Content.title = title',
      content = content', Content.createdAt = Date (clock e 0)\<rparr>"

section \<open>The stores\<close>

text \<open>
  A \<open>StableBTreeMap<string, V>\<close> is a map ordered by key: here the list of its entries
  in key order. \<open>insert\<close> replaces the value of a key that is present, \<open>remove\<close> of a key
  that is not present changes nothing, \<open>values\<close> lists the values in key order. The map
  holds copies: an object read from it is changed in the map only by inserting it again.
\<close>

type_synonym 'v StableBTreeMap = "(string \<times> 'v) list"

fun btree_insert :: "string \<Rightarrow> 'v \<Rightarrow> 'v StableBTreeMap \<Rightarrow> 'v StableBTreeMap" where
  "btree_insert k v [] = [(k, v)]"
| "btree_insert k v ((k', v') # m) =
     (if k = k' then (k, v) # m
      else if k < k' then (k, v) # (k', v') # m
      else (k', v') # btree_insert k v m)"

fun btree_get :: "'v StableBTreeMap \<Rightarrow> string \<Rightarrow> 'v option" where
  "btree_get [] k = None"
| "btree_get ((k', v') # m) k = (if k = k' then Some v' else btree_get m k)"

fun btree_remove :: "string \<Rightarrow> 'v StableBTreeMap \<Rightarrow> 'v StableBTreeMap" where
  "btree_remove k [] = []"
| "btree_remove k ((k', v') # m) = (if k = k' then btree_remove k m else (k', v') # btree_remove k m)"

definition btree_values :: "'v StableBTreeMap \<Rightarrow> 'v list" where
  "btree_values m = map snd m"

text \<open>
  \<open>get\<close> with a key read from the body. After validation the key is a string; a value
  that is not a string is no key of a map whose keys are strings.
\<close>

fun btree_get_value :: "'v StableBTreeMap \<Rightarrow> jsvalue \<Rightarrow> 'v option" where
  "btree_get_value m (JString k) = btree_get m k"
| "btree_get_value m v = None"

subsection \<open>What \<open>get\<close> answers\<close>

text \<open>
  The library is no part of the repository, and the repository pins no release of it. Its
  releases differ in what \<open>get\<close> hands to the caller: releases 0.20 to 0.22 answer an
  \<open>Opt\<close> object, \<open>{Some: v}\<close> for a key that is present and \<open>{None: null}\<close> for one that is
  not; release 0.23.0 answers the value itself, and \<open>null\<close> for a key that is not
  present. No release answers \<open>undefined\<close>. The release is a parameter of every handler
  that calls \<open>get\<close>.
\<close>

datatype azle = azle_Opt | azle_null

text \<open>
  What the variable \<open>member\<close> of a handler can hold: \<open>undefined\<close>, \<open>null\<close>, or an object,
  which is a stored value or an \<open>Opt\<close> around one.
\<close>

datatype 'v object = Value 'v | Opt "'v option"

datatype 'v got = Is_undefined | Is_null | Is "'v object"

definition get_answer :: "azle \<Rightarrow> 'v option \<Rightarrow> 'v got" where
  "get_answer lib r =
     (case lib of
        azle_Opt \<Rightarrow> Is (Opt r)
      | azle_null \<Rightarrow> (case r of None \<Rightarrow> Is_null | Some v \<Rightarrow> Is (Value v)))"

text \<open>
  What the Member store holds. \<open>post\<close> inserts a Member. \<open>put\<close> inserts the object it
  read after assigning \<open>name\<close>, \<open>contact\<close> and \<open>membershipStatus\<close> to it: when that
  object is an \<open>Opt\<close>, the three fields are added to the \<open>Opt\<close> and the stored value is
  \<open>{Some: v, name, contact, membershipStatus}\<close> (or \<open>{None: null, name, ...}\<close>), here
  \<open>Wrapped\<close>.
\<close>

datatype stored_member =
    Record Member
  | Wrapped "stored_member option" jsvalue jsvalue jsvalue

text \<open>\<open>member.name = ...; member.contact = ...; member.membershipStatus = ...\<close> on an object.\<close>

fun set_fields :: "stored_member object \<Rightarrow> jsvalue \<Rightarrow> jsvalue \<Rightarrow> jsvalue \<Rightarrow> stored_member" where
  "set_fields (Value (Record m)) n c t = Record (m\<lparr>name := n, contact := c, membershipStatus := t\<rparr>)"
| "set_fields (Value (Wrapped r n' c' t')) n c t = Wrapped r n c t"
| "set_fields (Opt r) n c t = Wrapped r n c t"

text \<open>The six module-level stores.\<close>

record stores =
  membersStorage :: "stored_member StableBTreeMap"
  eventsStorage :: "Event StableBTreeMap"
  donationsStorage :: "Donation StableBTreeMap"
  prayerRequestsStorage :: "PrayerRequest StableBTreeMap"
  contentStorage :: "Content StableBTreeMap"
  contributionsStorage :: "Contribution StableBTreeMap"

section \<open>Responses\<close>

text \<open>
  A response is the status code and the JSON sent: \<open>{error: msg}\<close>,
  \<open>{message: msg, <entity>: x}\<close>, the entity itself, or \<open>{message: msg}\<close>. Status 400 is
  the specification's ValidationError, 404 its NotFoundError, 500 its StoreFailure.
\<close>

datatype 'a reply = Error string | Message string 'a | Entity 'a | MessageOnly string

type_synonym 'a response = "nat \<times> 'a reply"

definition status :: "'a response \<Rightarrow> nat" where
  "status r = fst r"

section \<open>The handlers\<close>

text \<open>
  A handler takes the stores and the request and gives the response and the stores after
  it. Each \<open>post\<close> handler constructs and inserts inside a \<open>try\<close> whose \<open>catch\<close>
  answers 500. The constructors and \<open>insert\<close> do not throw; of the calls inside a
  \<open>try\<close> only \<open>new Date(v)\<close> can throw on a parsed body, so the handlers that call it
  have the 500 branch and the others have none.
\<close>

subsection \<open>Members\<close>

text \<open>\<open>app.post("/members")\<close>, the specification's \<open>createMember\<close>.\<close>

definition post_members :: "env \<Rightarrow> stores \<Rightarrow> body \<Rightarrow> Member response \<times> stores" where
  "post_members e s b =
     (if \<not> truthy (b ''name'') \<or> typeof (b ''name'') \<noteq> ''string'' \<or>
         \<not> truthy (b ''contact'') \<or> typeof (b ''contact'') \<noteq> ''string'' \<or>
         \<not> truthy (b ''membershipStatus'') \<or> typeof (b ''membershipStatus'') \<noteq> ''string''
      then ((400, Error ''Invalid input: Ensure 'name', 'contact', and 'membershipStatus' are provided and are strings.''), s)
      else
        let member = new_Member e (b ''name'') (b ''contact'') (b ''membershipStatus'')
        in ((201, Message ''Member created successfully'' member),
            s\<lparr>membersStorage := btree_insert (Member.id' member) (Record member) (membersStorage s)\<rparr>))"

text \<open>\<open>app.get("/members")\<close>, \<open>listMembers\<close>.\<close>

definition get_members :: "stores \<Rightarrow> stored_member list response" where
  "get_members s = (200, Message ''Members retrieved successfully'' (btree_values (membersStorage s)))"

text \<open>
  \<open>app.get("/members/:id")\<close>, \<open>getMember\<close>. \<open>if (!member)\<close> holds for \<open>undefined\<close> and
  \<open>null\<close> and for no object; the handler sends the object it read.
\<close>

definition get_members_id :: "azle \<Rightarrow> stores \<Rightarrow> string \<Rightarrow> stored_member object response" where
  "get_members_id lib s params_id =
     (case get_answer lib (btree_get (membersStorage s) params_id) of
        Is_undefined \<Rightarrow> (404, Error ''Member not found'')
      | Is_null \<Rightarrow> (404, Error ''Member not found'')
      | Is member \<Rightarrow> (200, Entity member))"

text \<open>\<open>app.put("/members/:id")\<close>, \<open>updateMember\<close>.\<close>

definition put_members_id :: "azle \<Rightarrow> stores \<Rightarrow> string \<Rightarrow> body \<Rightarrow> stored_member response \<times> stores" where
  "put_members_id lib s params_id b =
     (case get_answer lib (btree_get (membersStorage s) params_id) of
        Is_undefined \<Rightarrow> ((404, Error ''Member not found''), s)
      | Is_null \<Rightarrow> ((404, Error ''Member not found''), s)
      | Is member \<Rightarrow>
          if \<not> truthy (b ''name'') \<or> \<not> truthy (b ''contact'') \<or> \<not> truthy (b ''membershipStatus'')
          then ((400, Error ''Incomplete member data''), s)
          else
            let member' = set_fields member (b ''name'') (b ''contact'') (b ''membershipStatus'')
            in ((200, Message ''Member updated successfully'' member'),
                s\<lparr>membersStorage := btree_insert params_id member' (membersStorage s)\<rparr>))"

text \<open>\<open>app.delete("/members/:id")\<close>, \<open>deleteMember\<close>.\<close>

definition delete_members_id :: "azle \<Rightarrow> stores \<Rightarrow> string \<Rightarrow> stored_member response \<times> stores" where
  "delete_members_id lib s params_id =
     (case get_answer lib (btree_get (membersStorage s) params_id) of
        Is_undefined \<Rightarrow> ((404, Error ''Member not found''), s)
      | Is_null \<Rightarrow> ((404, Error ''Member not found''), s)
      | Is member \<Rightarrow>
          ((200, MessageOnly ''Member deleted successfully''),
           s\<lparr>membersStorage := btree_remove params_id (membersStorage s)\<rparr>))"

subsection \<open>Events\<close>

text \<open>
  \<open>app.post("/events")\<close>, \<open>createEvent\<close>. \<open>new Date(req.body.dateTime)\<close> is evaluated
  inside the \<open>try\<close>: when it throws, the \<open>catch\<close> answers 500 and nothing is inserted.
\<close>

definition post_events :: "env \<Rightarrow> stores \<Rightarrow> body \<Rightarrow> Event response \<times> stores" where
  "post_events e s b =
     (if \<not> truthy (b ''title'') \<or> typeof (b ''title'') \<noteq> ''string'' \<or>
         \<not> truthy (b ''description'') \<or> typeof (b ''description'') \<noteq> ''string'' \<or>
         \<not> truthy (b ''dateTime'') \<or>
         \<not> truthy (b ''location'') \<or> typeof (b ''location'') \<noteq> ''string''
      then ((400, Error ''Invalid input: Ensure 'title', 'description', 'dateTime', and 'location' are provided and are of the correct types.''), s)
      else
        case new_Date e (b ''dateTime'') of
          None \<Rightarrow> ((500, Error ''Server error occurred while creating the event.''), s)
        | Some d \<Rightarrow>
            let event = new_Event e (b ''title'') (b ''description'') d (b ''location'')
            in ((201, Message ''Event created successfully'' event),
                s\<lparr>eventsStorage := btree_insert (Event.id' event) event (eventsStorage s)\<rparr>))"

text \<open>\<open>app.get("/events")\<close>, \<open>listEvents\<close>.\<close>

definition get_events :: "stores \<Rightarrow> Event list response" where
  "get_events s = (200, Message ''Events retrieved successfully'' (btree_values (eventsStorage s)))"

subsection \<open>Donations\<close>

text \<open>\<open>app.post("/donations")\<close>, \<open>createDonation\<close>.\<close>

definition post_donations :: "env \<Rightarrow> stores \<Rightarrow> body \<Rightarrow> Donation response \<times> stores" where
  "post_donations e s b =
     (if \<not> truthy (b ''donorId'') \<or> typeof (b ''donorId'') \<noteq> ''string'' \<or>
         \<not> truthy (b ''amount'') \<or> typeof (b ''amount'') \<noteq> ''number''
      then ((400, Error ''Invalid input: Ensure 'donorId' is provided as a string and 'amount' is provided as a number.''), s)
      else
        let donation = new_Donation e (b ''donorId'') (b ''amount'')
        in ((201, Message ''Donation created successfully'' donation),
            s\<lparr>donationsStorage := btree_insert (Donation.id' donation) donation (donationsStorage s)\<rparr>))"

text \<open>\<open>app.get("/donations")\<close>, \<open>listDonations\<close>.\<close>

definition get_donations :: "stores \<Rightarrow> Donation list response" where
  "get_donations s =
     (200, Message ''Donations retrieved successfully'' (btree_values (donationsStorage s)))"

subsection \<open>Contributions\<close>

text \<open>
  \<open>app.post("/contributions")\<close>, \<open>createContribution\<close>. The member is looked up and the
  answer compared with \<open>undefined\<close> (\<open>member === undefined\<close>); \<open>null\<close> and an object are
  not \<open>undefined\<close>. The fifth argument of the constructor is
  \<open>new Date(req.body.commitmentDate)\<close> for a pledge and \<open>undefined\<close> otherwise; it is
  evaluated inside the \<open>try\<close>.
\<close>

definition post_contributions ::
  "azle \<Rightarrow> env \<Rightarrow> stores \<Rightarrow> body \<Rightarrow> Contribution response \<times> stores" where
  "post_contributions lib e s b =
     (if \<not> truthy (b ''memberId'') \<or> typeof (b ''memberId'') \<noteq> ''string'' \<or>
         \<not> truthy (b ''type'') \<or> typeof (b ''type'') \<noteq> ''string'' \<or>
         \<not> truthy (b ''amount'') \<or> typeof (b ''amount'') \<noteq> ''number'' \<or>
         \<not> truthy (b ''description'') \<or> typeof (b ''description'') \<noteq> ''string'' \<or>
         (b ''type'' = JString ''Pledge'' \<and> \<not> truthy (b ''commitmentDate''))
      then ((400, Error ''Invalid input: Ensure 'memberId', 'type', 'amount', 'description', and if a pledge, 'commitmentDate' are provided and are of the correct types.''), s)
      else
        if get_answer lib (btree_get_value (membersStorage s) (b ''memberId'')) = Is_undefined
        then ((404, Error ''Member not found: The provided memberId does not correspond to any registered member.''), s)
        else
          (case (if b ''type'' = JString ''Pledge''
                 then map_option Some (new_Date e (b ''commitmentDate''))
                 else Some None) of
             None \<Rightarrow> ((500, Error ''Server error occurred while creating the contribution.''), s)
           | Some commitmentDate' \<Rightarrow>
               let contribution = new_Contribution e (b ''memberId'') (b ''type'') (b ''amount'')
                                    (b ''description'') commitmentDate'
               in ((201, Message ''Contribution created successfully'' contribution),
                   s\<lparr>contributionsStorage :=
                        btree_insert (Contribution.id' contribution) contribution
                          (contributionsStorage s)\<rparr>)))"

text \<open>\<open>app.get("/contributions")\<close>, \<open>listContributions\<close>.\<close>

definition get_contributions :: "stores \<Rightarrow> Contribution list response" where
  "get_contributions s =
     (200, Message ''Contributions retrieved successfully'' (btree_values (contributionsStorage s)))"

subsection \<open>Prayer requests\<close>

text \<open>\<open>app.post("/prayer-requests")\<close>, \<open>createPrayerRequest\<close>.\<close>

definition post_prayer_requests :: "env \<Rightarrow> stores \<Rightarrow> body \<Rightarrow> PrayerRequest response \<times> stores" where
  "post_prayer_requests e s b =
     (if \<not> truthy (b ''memberId'') \<or> typeof (b ''memberId'') \<noteq> ''string'' \<or>
         \<not> truthy (b ''request'') \<or> typeof (b ''request'') \<noteq> ''string''
      then ((400, Error ''Invalid input: Ensure 'memberId' and 'request' are provided and are of the correct types.''), s)
      else
        let prayerRequest = new_PrayerRequest e (b ''memberId'') (b ''request'')
        in ((201, Message ''Prayer request created successfully'' prayerRequest),
            s\<lparr>prayerRequestsStorage :=
                 btree_insert (PrayerRequest.id' prayerRequest) prayerRequest
                   (prayerRequestsStorage s)\<rparr>))"

text \<open>\<open>app.get("/prayer-requests")\<close>, \<open>listPrayerRequests\<close>.\<close>

definition get_prayer_requests :: "stores \<Rightarrow> PrayerRequest list response" where
  "get_prayer_requests s =
     (200, Message ''Prayer requests retrieved successfully''
             (btree_values (prayerRequestsStorage s)))"

subsection \<open>Contents\<close>

text \<open>\<open>app.post("/contents")\<close>, \<open>createContent\<close>.\<close>

definition post_contents :: "env \<Rightarrow> stores \<Rightarrow> body \<Rightarrow> Content response \<times> stores" where
  "post_contents e s b =
     (if \<not> truthy (b ''type'') \<or> typeof (b ''type'') \<noteq> ''string'' \<or>
         \<not> truthy (b ''title'') \<or> typeof (b ''title'') \<noteq> ''string'' \<or>
         \<not> truthy (b ''content'') \<or> typeof (b ''content'') \<noteq> ''string''
      then ((400, Error ''Invalid input: Ensure 'type', 'title', and 'content' are provided and are strings.''), s)
      else
        let content' = new_Content e (b ''type'') (b ''title'') (b ''content'')
        in ((201, Message ''Content created successfully'' content'),
            s\<lparr>contentStorage := btree_insert (Content.id' content') content' (contentStorage s)\<rparr>))"

text \<open>\<open>app.get("/contents")\<close>, \<open>listContents\<close>.\<close>

definition get_contents :: "stores \<Rightarrow> Content list response" where
  "get_contents s = (200, Message ''Content retrieved successfully'' (btree_values (contentStorage s)))"

section \<open>The vocabulary of the claims\<close>

text \<open>
  What the checks \<open>!v || typeof v !== "string"\<close> and \<open>!v || typeof v !== "number"\<close>
  let through: a non-empty string, and a number other than zero.
\<close>

fun nonempty_string :: "jsvalue \<Rightarrow> bool" where
  "nonempty_string (JString s) = (s \<noteq> [])"
| "nonempty_string v = False"

fun nonzero_number :: "jsvalue \<Rightarrow> bool" where
  "nonzero_number (JNumber n) = (n \<noteq> Finite 0)"
| "nonzero_number v = False"

text \<open>The validation rule of each \<open>post\<close> handler: the negation of its first condition.\<close>

definition Member_rules :: "body \<Rightarrow> bool" where
  "Member_rules b =
     (nonempty_string (b ''name'') \<and> nonempty_string (b ''contact'') \<and>
      nonempty_string (b ''membershipStatus''))"

definition Event_rules :: "body \<Rightarrow> bool" where
  "Event_rules b =
     (nonempty_string (b ''title'') \<and> nonempty_string (b ''description'') \<and>
      truthy (b ''dateTime'') \<and> nonempty_string (b ''location''))"

definition Donation_rules :: "body \<Rightarrow> bool" where
  "Donation_rules b = (nonempty_string (b ''donorId'') \<and> nonzero_number (b ''amount''))"

definition Contribution_rules :: "body \<Rightarrow> bool" where
  "Contribution_rules b =
     (nonempty_string (b ''memberId'') \<and> nonempty_string (b ''type'') \<and>
      nonzero_number (b ''amount'') \<and> nonempty_string (b ''description'') \<and>
      (b ''type'' = JString ''Pledge'' \<longrightarrow> truthy (b ''commitmentDate'')))"

definition PrayerRequest_rules :: "body \<Rightarrow> bool" where
  "PrayerRequest_rules b = (nonempty_string (b ''memberId'') \<and> nonempty_string (b ''request''))"

definition Content_rules :: "body \<Rightarrow> bool" where
  "Content_rules b =
     (nonempty_string (b ''type'') \<and> nonempty_string (b ''title'') \<and>
      nonempty_string (b ''content''))"

text \<open>
  The outcomes of the specification read off a response: a ValidationError is an error
  with status 400, a NotFoundError (for a contribution, the MemberNotFoundError) an error
  with status 404; \<open>created r\<close> is the entity of a 201 response.
\<close>

definition ValidationError :: "'a response \<Rightarrow> bool" where
  "ValidationError r = (case r of (c, Error msg) \<Rightarrow> c = 400 | _ \<Rightarrow> False)"

definition NotFoundError :: "'a response \<Rightarrow> bool" where
  "NotFoundError r = (case r of (c, Error msg) \<Rightarrow> c = 404 | _ \<Rightarrow> False)"

definition created :: "'a response \<Rightarrow> 'a option" where
  "created r = (case r of (c, Message msg x) \<Rightarrow> (if c = 201 then Some x else None) | _ \<Rightarrow> None)"

text \<open>The entities of a list response.\<close>

definition listed :: "'a list response \<Rightarrow> 'a list" where
  "listed r = (case r of (c, Message msg xs) \<Rightarrow> xs | _ \<Rightarrow> [])"

text \<open>The keys of a store are in strictly increasing order.\<close>

definition key_ordered :: "'v StableBTreeMap \<Rightarrow> bool" where
  "key_ordered m = sorted_wrt (<) (map fst m)"

definition stores_ordered :: "stores \<Rightarrow> bool" where
  "stores_ordered s =
     (key_ordered (membersStorage s) \<and> key_ordered (eventsStorage s) \<and>
      key_ordered (donationsStorage s) \<and> key_ordered (prayerRequestsStorage s) \<and>
      key_ordered (contentStorage s) \<and> key_ordered (contributionsStorage s))"

text \<open>
  The rule of the specification for an Event, in its words (data model and validation
  rules): \<open>title\<close>, \<open>description\<close> and \<open>location\<close> non-empty strings, \<open>dateTime\<close> present
  and timestamp-coercible, that is, \<open>new Date\<close> of it is a valid date.
\<close>

definition timestamp_coercible :: "env \<Rightarrow> jsvalue \<Rightarrow> bool" where
  "timestamp_coercible e v = (case new_Date e v of Some (Date t) \<Rightarrow> True | _ \<Rightarrow> False)"

definition Event_rule_of_specification :: "env \<Rightarrow> body \<Rightarrow> bool" where
  "Event_rule_of_specification e b =
     (nonempty_string (b ''title'') \<and> nonempty_string (b ''description'') \<and>
      b ''dateTime'' \<noteq> JUndefined \<and> timestamp_coercible e (b ''dateTime'') \<and>
      nonempty_string (b ''location''))"

section \<open>Example data\<close>

text \<open>
  An environment for the examples: the clock stands still during the request, and the
  runtime's \<open>Date.parse\<close> is given on the one string the examples parse (no example
  converts a number to a string).
\<close>

definition example_env :: env where
  "example_env =
     \<lparr>uuidv4 = ''c0ffee'', clock = (\<lambda>k. 1700000000000),
      Date_parse = (\<lambda>s. if s = ''2024-01-01T00:00:00.000Z'' then Date 1704067200000
                          else Invalid_Date),
      Number_toString = (\<lambda>n. ''NaN'')\<rparr>"

definition Ana :: Member where
  "Ana = \<lparr>Member.id' = ''M1'', name = JString ''Ana'', contact = JString ''a@x.com'',
          membershipStatus = JString ''Active'', Member.createdAt = Date 1690000000000\<rparr>"

definition no_stores :: stores where
  "no_stores =
     \<lparr>membersStorage = [], eventsStorage = [], donationsStorage = [],
      prayerRequestsStorage = [], contentStorage = [], contributionsStorage = []\<rparr>"

definition example_stores :: stores where
  "example_stores = no_stores\<lparr>membersStorage := [(''M1'', Record Ana)]\<rparr>"

text \<open>\<open>{memberId: "M1", type: "Tithe", amount: 50, description: "Sunday"}\<close>\<close>

definition tithe :: body where
  "tithe = empty_body(''memberId'' := JString ''M1'', ''type'' := JString ''Tithe'',
             ''amount'' := JNumber (Finite 50), ''description'' := JString ''Sunday'')"

text \<open>The tithe with \<open>memberId: "ghost"\<close>.\<close>

definition ghost_tithe :: body where
  "ghost_tithe = tithe(''memberId'' := JString ''ghost'')"

text \<open>The tithe with a commitment date supplied.\<close>

definition dated_tithe :: body where
  "dated_tithe = tithe(''commitmentDate'' := JString ''2024-01-01T00:00:00.000Z'')"

text \<open>A pledge of the same member, with its commitment date.\<close>

definition pledge :: body where
  "pledge = tithe(''type'' := JString ''Pledge'',
              ''commitmentDate'' := JString ''2024-01-01T00:00:00.000Z'')"

text \<open>The pledge with \<open>commitmentDate: 0\<close>, the epoch.\<close>

definition epoch_pledge :: body where
  "epoch_pledge = pledge(''commitmentDate'' := JNumber (Finite 0))"

text \<open>The pledge with \<open>commitmentDate: {"toString": 1}\<close>.\<close>

definition opaque_pledge :: body where
  "opaque_pledge = pledge(''commitmentDate'' := JObject [(''toString'', JNumber (Finite 1))])"

text \<open>\<open>{donorId: "D1", amount: 50}\<close> and \<open>{donorId: "D1", amount: 0}\<close>\<close>

definition donation50 :: body where
  "donation50 = empty_body(''donorId'' := JString ''D1'', ''amount'' := JNumber (Finite 50))"

definition free_donation :: body where
  "free_donation = empty_body(''donorId'' := JString ''D1'', ''amount'' := JNumber (Finite 0))"

text \<open>
  Bodies for an update: \<open>{name: 5, contact: true, membershipStatus: []}\<close>, and the same
  with \<open>contact: ""\<close>.
\<close>

definition rename :: body where
  "rename = empty_body(''name'' := JNumber (Finite 5), ''contact'' := JBool True,
              ''membershipStatus'' := JArray [])"

definition blank_rename :: body where
  "blank_rename = rename(''contact'' := JString '''')"

text \<open>An event, and the same event with \<open>dateTime: 1152921504606846976\<close> (that is \<open>2^60\<close>).\<close>

definition picnic :: body where
  "picnic = empty_body(''title'' := JString ''Picnic'', ''description'' := JString ''Annual picnic'',
              ''dateTime'' := JString ''2024-01-01T00:00:00.000Z'', ''location'' := JString ''Park'')"

definition far_picnic :: body where
  "far_picnic = picnic(''dateTime'' := JNumber (Finite 1152921504606846976))"

text \<open>Bodies for a member, a prayer request and a content.\<close>

definition ana_body :: body where
  "ana_body = empty_body(''name'' := JString ''Ana'', ''contact'' := JString ''a@x.com'',
           ''membershipStatus'' := JString ''Active'')"

definition prayer :: body where
  "prayer = empty_body(''memberId'' := JString ''M1'', ''request'' := JString ''Health'')"

definition sermon :: body where
  "sermon = empty_body(''type'' := JString ''Sermon'', ''title'' := JString ''Hope'',
              ''content'' := JString ''Text'')"

text \<open>A second member, and stores in which every collection holds something.\<close>

definition Ben :: Member where
  "Ben = \<lparr>Member.id' = ''M2'', name = JString ''Ben'', contact = JString ''b@x.com'',
          membershipStatus = JString ''Visitor'', Member.createdAt = Date 1690000000001\<rparr>"

definition busy_stores :: stores where
  "busy_stores =
     \<lparr>membersStorage = [(''M1'', Record Ana), (''M2'', Record Ben)],
      eventsStorage =
        [(''E1'', \<lparr>Event.id' = ''E1'', Event.title = JString ''Picnic'',
                   Event.description = JString ''Annual picnic'', dateTime = Date 1704067200000,
                   location = JString ''Park'', Event.createdAt = Date 1690000000002\<rparr>)],
      donationsStorage =
        [(''D1'', \<lparr>Donation.id' = ''D1'', donorId = JString ''M2'',
                   Donation.amount = JNumber (Finite 20), Donation.createdAt = Date 1690000000003\<rparr>)],
      prayerRequestsStorage =
        [(''P1'', \<lparr>PrayerRequest.id' = ''P1'', PrayerRequest.memberId = JString ''M1'',
                   request = JString ''Health'', PrayerRequest.createdAt = Date 1690000000004\<rparr>)],
      contentStorage =
        [(''S1'', \<lparr>Content.id' = ''S1'', Content.type = JString ''Sermon'',
                   Content.title = JString ''Hope'', content = JString ''Text'',
                   Content.createdAt = Date 1690000000005\<rparr>)],
      contributionsStorage =
        [(''C1'', \<lparr>Contribution.id' = ''C1'', Contribution.memberId = JString ''M1'',
                   Contribution.type = JString ''Tithe'', Contribution.amount = JNumber (Finite 50),
                   Contribution.description = JString ''Sunday'',
                   commitmentDate = Date 1690000000006, fulfillmentDate = None,
                   Contribution.createdAt = Date 1690000000006\<rparr>)]\<rparr>"

text \<open>Bodies that break the rule of a handler, one for each create operation.\<close>

definition numbered_member :: body where
  "numbered_member = ana_body(''name'' := JNumber (Finite 5))"

definition untitled_picnic :: body where
  "untitled_picnic = picnic(''title'' := JString '''')"

definition quoted_donation :: body where
  "quoted_donation = donation50(''amount'' := JString ''50'')"

definition ghost_undated_pledge :: body where
  "ghost_undated_pledge = ghost_tithe(''type'' := JString ''Pledge'')"

definition silent_prayer :: body where
  "silent_prayer = prayer(''request'' := JNull)"

definition untitled_sermon :: body where
  "untitled_sermon = sermon(''title'' := JBool False)"

text \<open>The event with \<open>dateTime: 9007199254740992\<close> (that is \<open>2^53\<close>), beyond the time values.\<close>

definition late_picnic :: body where
  "late_picnic = picnic(''dateTime'' := JNumber (Finite 9007199254740992))"

section \<open>The stores: point lookups, listings and key order\<close>

lemma btree_get_insert:
  "btree_get (btree_insert k v m) k' = (if k' = k then Some v else btree_get m k')"
  by (induction m) auto

lemma btree_get_remove:
  "btree_get (btree_remove k m) k' = (if k' = k then None else btree_get m k')"
  by (induction m) auto

lemma btree_insert_entry: "(k, v) \<in> set (btree_insert k v m)"
  by (induction m) auto

lemma btree_values_insert: "v \<in> set (btree_values (btree_insert k v m))"
  using btree_insert_entry [of k v m] by (force simp: btree_values_def)

lemma btree_get_values: "btree_get m k = Some v \<Longrightarrow> v \<in> set (btree_values m)"
  by (induction m) (auto simp: btree_values_def split: if_splits)

text \<open>\<open>insert\<close> and \<open>remove\<close> keep the keys in order, and an update keeps the keys.\<close>

lemma keys_btree_insert: "set (map fst (btree_insert k v m)) = insert k (set (map fst m))"
  by (induction k v m rule: btree_insert.induct) auto

lemma keys_btree_remove: "set (map fst (btree_remove k m)) = set (map fst m) - {k}"
  by (induction k m rule: btree_remove.induct) auto

lemma key_ordered_insert: "key_ordered m \<Longrightarrow> key_ordered (btree_insert k v m)"
  unfolding key_ordered_def
proof (induction m)
  case Nil
  then show ?case by simp
next
  case (Cons p m)
  obtain k' v' where p: "p = (k', v')" by (cases p)
  from Cons.prems have below: "\<forall>x \<in> set (map fst m). k' < x" and rest: "sorted_wrt (<) (map fst m)"
    unfolding p by simp_all
  show ?case
  proof (cases "k = k'")
    case True
    with Cons.prems show ?thesis unfolding p by simp
  next
    case neq: False
    show ?thesis
    proof (cases "k < k'")
      case True
      with neq Cons.prems below show ?thesis unfolding p by auto
    next
      case False
      with neq have "k' < k" by simp
      with neq False below Cons.IH [OF rest] show ?thesis
        unfolding p using keys_btree_insert [of k v m] by simp
    qed
  qed
qed

lemma key_ordered_remove: "key_ordered m \<Longrightarrow> key_ordered (btree_remove k m)"
  unfolding key_ordered_def
proof (induction k m rule: btree_remove.induct)
  case (1 k)
  then show ?case by simp
next
  case (2 k k' v' m)
  then show ?case
    using keys_btree_remove [of k m] by auto
qed

lemma btree_get_None_below:
  "\<forall>x \<in> set (map fst m). k < x \<Longrightarrow> btree_get m k = None"
  by (induction m) auto

lemma btree_insert_present:
  "key_ordered m \<Longrightarrow> btree_get m k = Some v' \<Longrightarrow>
   map fst (btree_insert k v m) = map fst m"
  unfolding key_ordered_def
proof (induction m)
  case Nil
  then show ?case by simp
next
  case (Cons p m)
  obtain k' w where p: "p = (k', w)" by (cases p)
  show ?case
  proof (cases "k = k'")
    case True
    then show ?thesis unfolding p by simp
  next
    case False
    with Cons.prems have g: "btree_get m k = Some v'" and s: "sorted_wrt (<) (map fst m)"
      and below: "\<forall>x \<in> set (map fst m). k' < x"
      unfolding p by simp_all
    have "\<not> k < k'"
    proof
      assume "k < k'"
      with below have "\<forall>x \<in> set (map fst m). k < x" by auto
      from btree_get_None_below [OF this] g show False by simp
    qed
    with False Cons.IH [OF s g] show ?thesis unfolding p by simp
  qed
qed

section \<open>The checks of the handlers in the words of the rules\<close>

lemma string_check: "(\<not> truthy v \<or> typeof v \<noteq> ''string'') = (\<not> nonempty_string v)"
  by (cases v) auto

lemma number_check: "(\<not> truthy v \<or> typeof v \<noteq> ''number'') = (\<not> nonzero_number v)"
  by (cases v) auto

lemma nonempty_string_truthy: "nonempty_string v \<Longrightarrow> truthy v \<and> typeof v = ''string''"
  by (cases v) auto

lemma nonzero_number_truthy: "nonzero_number v \<Longrightarrow> truthy v \<and> typeof v = ''number''"
  by (cases v) auto

lemma Contribution_check:
  "(\<not> truthy (b ''memberId'') \<or> typeof (b ''memberId'') \<noteq> ''string'' \<or>
    \<not> truthy (b ''type'') \<or> typeof (b ''type'') \<noteq> ''string'' \<or>
    \<not> truthy (b ''amount'') \<or> typeof (b ''amount'') \<noteq> ''number'' \<or>
    \<not> truthy (b ''description'') \<or> typeof (b ''description'') \<noteq> ''string'' \<or>
    (b ''type'' = JString ''Pledge'' \<and> \<not> truthy (b ''commitmentDate'')))
   = (\<not> Contribution_rules b)"
  unfolding Contribution_rules_def
  using string_check [of "b ''memberId''"] string_check [of "b ''type''"]
    string_check [of "b ''description''"] number_check [of "b ''amount''"]
  by blast

lemma get_answer_defined: "get_answer lib r \<noteq> Is_undefined"
  by (cases lib; cases r) (simp_all add: get_answer_def)

lemma get_answer_Opt: "get_answer azle_Opt r = Is (Opt r)"
  by (simp add: get_answer_def)

lemma get_answer_null:
  "get_answer azle_null None = Is_null" "get_answer azle_null (Some v) = Is (Value v)"
  by (simp_all add: get_answer_def)

lemma post_contributions_invalid:
  "\<not> Contribution_rules b \<Longrightarrow>
   post_contributions lib e s b = ((400, Error ''Invalid input: Ensure 'memberId', 'type', 'amount', 'description', and if a pledge, 'commitmentDate' are provided and are of the correct types.''), s)"
  unfolding post_contributions_def Contribution_check by simp

lemma post_contributions_valid:
  "Contribution_rules b \<Longrightarrow>
   post_contributions lib e s b =
     (case (if b ''type'' = JString ''Pledge''
            then map_option Some (new_Date e (b ''commitmentDate''))
            else Some None) of
        None \<Rightarrow> ((500, Error ''Server error occurred while creating the contribution.''), s)
      | Some commitmentDate' \<Rightarrow>
          let contribution = new_Contribution e (b ''memberId'') (b ''type'') (b ''amount'')
                               (b ''description'') commitmentDate'
          in ((201, Message ''Contribution created successfully'' contribution),
              s\<lparr>contributionsStorage :=
                   btree_insert (Contribution.id' contribution) contribution
                     (contributionsStorage s)\<rparr>))"
  unfolding post_contributions_def Contribution_check by (simp add: get_answer_defined)

lemma Member_check:
  "(\<not> truthy (b ''name'') \<or> typeof (b ''name'') \<noteq> ''string'' \<or>
    \<not> truthy (b ''contact'') \<or> typeof (b ''contact'') \<noteq> ''string'' \<or>
    \<not> truthy (b ''membershipStatus'') \<or> typeof (b ''membershipStatus'') \<noteq> ''string'')
   = (\<not> Member_rules b)"
  unfolding Member_rules_def
  using string_check [of "b ''name''"] string_check [of "b ''contact''"]
    string_check [of "b ''membershipStatus''"]
  by blast

lemma Event_check:
  "(\<not> truthy (b ''title'') \<or> typeof (b ''title'') \<noteq> ''string'' \<or>
    \<not> truthy (b ''description'') \<or> typeof (b ''description'') \<noteq> ''string'' \<or>
    \<not> truthy (b ''dateTime'') \<or>
    \<not> truthy (b ''location'') \<or> typeof (b ''location'') \<noteq> ''string'')
   = (\<not> Event_rules b)"
  unfolding Event_rules_def
  using string_check [of "b ''title''"] string_check [of "b ''description''"]
    string_check [of "b ''location''"]
  by blast

lemma Donation_check:
  "(\<not> truthy (b ''donorId'') \<or> typeof (b ''donorId'') \<noteq> ''string'' \<or>
    \<not> truthy (b ''amount'') \<or> typeof (b ''amount'') \<noteq> ''number'')
   = (\<not> Donation_rules b)"
  unfolding Donation_rules_def
  using string_check [of "b ''donorId''"] number_check [of "b ''amount''"]
  by blast

lemma PrayerRequest_check:
  "(\<not> truthy (b ''memberId'') \<or> typeof (b ''memberId'') \<noteq> ''string'' \<or>
    \<not> truthy (b ''request'') \<or> typeof (b ''request'') \<noteq> ''string'')
   = (\<not> PrayerRequest_rules b)"
  unfolding PrayerRequest_rules_def
  using string_check [of "b ''memberId''"] string_check [of "b ''request''"]
  by blast

lemma Content_check:
  "(\<not> truthy (b ''type'') \<or> typeof (b ''type'') \<noteq> ''string'' \<or>
    \<not> truthy (b ''title'') \<or> typeof (b ''title'') \<noteq> ''string'' \<or>
    \<not> truthy (b ''content'') \<or> typeof (b ''content'') \<noteq> ''string'')
   = (\<not> Content_rules b)"
  unfolding Content_rules_def
  using string_check [of "b ''type''"] string_check [of "b ''title''"]
    string_check [of "b ''content''"]
  by blast

lemma post_members_invalid:
  "\<not> Member_rules b \<Longrightarrow>
   post_members e s b = ((400, Error ''Invalid input: Ensure 'name', 'contact', and 'membershipStatus' are provided and are strings.''), s)"
  unfolding post_members_def Member_check by simp

lemma post_members_valid:
  "Member_rules b \<Longrightarrow>
   post_members e s b =
     ((201, Message ''Member created successfully''
              (new_Member e (b ''name'') (b ''contact'') (b ''membershipStatus''))),
      s\<lparr>membersStorage :=
           btree_insert (uuidv4 e)
             (Record (new_Member e (b ''name'') (b ''contact'') (b ''membershipStatus'')))
             (membersStorage s)\<rparr>)"
  unfolding post_members_def Member_check by (simp add: Let_def new_Member_def)

lemma post_events_invalid:
  "\<not> Event_rules b \<Longrightarrow>
   post_events e s b = ((400, Error ''Invalid input: Ensure 'title', 'description', 'dateTime', and 'location' are provided and are of the correct types.''), s)"
  unfolding post_events_def Event_check by simp

lemma post_events_throws:
  "Event_rules b \<Longrightarrow> new_Date e (b ''dateTime'') = None \<Longrightarrow>
   post_events e s b = ((500, Error ''Server error occurred while creating the event.''), s)"
  unfolding post_events_def Event_check by simp

lemma post_events_valid:
  "Event_rules b \<Longrightarrow> new_Date e (b ''dateTime'') = Some d \<Longrightarrow>
   post_events e s b =
     ((201, Message ''Event created successfully''
              (new_Event e (b ''title'') (b ''description'') d (b ''location''))),
      s\<lparr>eventsStorage :=
           btree_insert (uuidv4 e) (new_Event e (b ''title'') (b ''description'') d (b ''location''))
             (eventsStorage s)\<rparr>)"
  unfolding post_events_def Event_check by (simp add: Let_def new_Event_def)

lemma post_donations_invalid:
  "\<not> Donation_rules b \<Longrightarrow>
   post_donations e s b = ((400, Error ''Invalid input: Ensure 'donorId' is provided as a string and 'amount' is provided as a number.''), s)"
  unfolding post_donations_def Donation_check by simp

lemma post_donations_valid:
  "Donation_rules b \<Longrightarrow>
   post_donations e s b =
     ((201, Message ''Donation created successfully'' (new_Donation e (b ''donorId'') (b ''amount''))),
      s\<lparr>donationsStorage :=
           btree_insert (uuidv4 e) (new_Donation e (b ''donorId'') (b ''amount''))
             (donationsStorage s)\<rparr>)"
  unfolding post_donations_def Donation_check by (simp add: Let_def new_Donation_def)

lemma post_prayer_requests_invalid:
  "\<not> PrayerRequest_rules b \<Longrightarrow>
   post_prayer_requests e s b = ((400, Error ''Invalid input: Ensure 'memberId' and 'request' are provided and are of the correct types.''), s)"
  unfolding post_prayer_requests_def PrayerRequest_check by simp

lemma post_prayer_requests_valid:
  "PrayerRequest_rules b \<Longrightarrow>
   post_prayer_requests e s b =
     ((201, Message ''Prayer request created successfully''
              (new_PrayerRequest e (b ''memberId'') (b ''request''))),
      s\<lparr>prayerRequestsStorage :=
           btree_insert (uuidv4 e) (new_PrayerRequest e (b ''memberId'') (b ''request''))
             (prayerRequestsStorage s)\<rparr>)"
  unfolding post_prayer_requests_def PrayerRequest_check by (simp add: Let_def new_PrayerRequest_def)

lemma post_contents_invalid:
  "\<not> Content_rules b \<Longrightarrow>
   post_contents e s b = ((400, Error ''Invalid input: Ensure 'type', 'title', and 'content' are provided and are strings.''), s)"
  unfolding post_contents_def Content_check by simp

lemma post_contents_valid:
  "Content_rules b \<Longrightarrow>
   post_contents e s b =
     ((201, Message ''Content created successfully''
              (new_Content e (b ''type'') (b ''title'') (b ''content''))),
      s\<lparr>contentStorage :=
           btree_insert (uuidv4 e) (new_Content e (b ''type'') (b ''title'') (b ''content''))
             (contentStorage s)\<rparr>)"
  unfolding post_contents_def Content_check by (simp add: Let_def new_Content_def)

lemma post_contributions_created:
  assumes "Contribution_rules b"
    and "(if b ''type'' = JString ''Pledge'' then map_option Some (new_Date e (b ''commitmentDate''))
          else Some None) = Some cd"
  shows "post_contributions lib e s b =
     ((201, Message ''Contribution created successfully''
              (new_Contribution e (b ''memberId'') (b ''type'') (b ''amount'') (b ''description'') cd)),
      s\<lparr>contributionsStorage :=
           btree_insert (uuidv4 e)
             (new_Contribution e (b ''memberId'') (b ''type'') (b ''amount'') (b ''description'') cd)
             (contributionsStorage s)\<rparr>)"
  using assms(2) unfolding post_contributions_valid [OF assms(1)]
  by (simp add: Let_def new_Contribution_def)

lemma post_contributions_throws:
  assumes "Contribution_rules b"
    and "b ''type'' = JString ''Pledge''" and "new_Date e (b ''commitmentDate'') = None"
  shows "post_contributions lib e s b =
     ((500, Error ''Server error occurred while creating the contribution.''), s)"
  using assms(2-) unfolding post_contributions_valid [OF assms(1)]
  by simp

section \<open>Each handler by cases\<close>

lemma listed_get_members [simp]: "listed (get_members s) = btree_values (membersStorage s)"
  and listed_get_events [simp]: "listed (get_events s) = btree_values (eventsStorage s)"
  and listed_get_donations [simp]: "listed (get_donations s) = btree_values (donationsStorage s)"
  and listed_get_contributions [simp]:
    "listed (get_contributions s) = btree_values (contributionsStorage s)"
  and listed_get_prayer_requests [simp]:
    "listed (get_prayer_requests s) = btree_values (prayerRequestsStorage s)"
  and listed_get_contents [simp]: "listed (get_contents s) = btree_values (contentStorage s)"
  by (simp_all add: listed_def get_members_def get_events_def get_donations_def
      get_contributions_def get_prayer_requests_def get_contents_def)

lemma created_simps [simp]:
  "created (201, Message msg x) = Some x"
  "created (c, Error msg) = None"
  by (simp_all add: created_def)

lemma post_events_cases:
  "(\<not> Event_rules b \<and> post_events e s b = ((400, Error ''Invalid input: Ensure 'title', 'description', 'dateTime', and 'location' are provided and are of the correct types.''), s)) \<or>
   (Event_rules b \<and> new_Date e (b ''dateTime'') = None \<and>
    post_events e s b = ((500, Error ''Server error occurred while creating the event.''), s)) \<or>
   (\<exists>d. Event_rules b \<and> new_Date e (b ''dateTime'') = Some d \<and>
     post_events e s b =
     ((201, Message ''Event created successfully''
              (new_Event e (b ''title'') (b ''description'') d (b ''location''))),
      s\<lparr>eventsStorage :=
           btree_insert (uuidv4 e) (new_Event e (b ''title'') (b ''description'') d (b ''location''))
             (eventsStorage s)\<rparr>))"
proof (cases "Event_rules b")
  case False
  then show ?thesis by (simp add: post_events_invalid)
next
  case True
  then show ?thesis
    by (cases "new_Date e (b ''dateTime'')") (simp_all add: post_events_throws post_events_valid)
qed

lemma post_contributions_cases:
  "(\<not> Contribution_rules b \<and>
    post_contributions lib e s b = ((400, Error ''Invalid input: Ensure 'memberId', 'type', 'amount', 'description', and if a pledge, 'commitmentDate' are provided and are of the correct types.''), s)) \<or>
   (Contribution_rules b \<and> b ''type'' = JString ''Pledge'' \<and>
    new_Date e (b ''commitmentDate'') = None \<and>
    post_contributions lib e s b =
      ((500, Error ''Server error occurred while creating the contribution.''), s)) \<or>
   (\<exists>cd. Contribution_rules b \<and>
      (if b ''type'' = JString ''Pledge'' then map_option Some (new_Date e (b ''commitmentDate''))
       else Some None) = Some cd \<and>
      post_contributions lib e s b =
       ((201, Message ''Contribution created successfully''
              (new_Contribution e (b ''memberId'') (b ''type'') (b ''amount'') (b ''description'') cd)),
        s\<lparr>contributionsStorage :=
           btree_insert (uuidv4 e)
             (new_Contribution e (b ''memberId'') (b ''type'') (b ''amount'') (b ''description'') cd)
             (contributionsStorage s)\<rparr>))"
proof (cases "Contribution_rules b")
  case False
  then show ?thesis by (simp add: post_contributions_invalid)
next
  case r: True
  show ?thesis
  proof (cases "(if b ''type'' = JString ''Pledge''
      then map_option Some (new_Date e (b ''commitmentDate'')) else Some None)")
    case None
    then have "b ''type'' = JString ''Pledge''" "new_Date e (b ''commitmentDate'') = None"
      by (simp_all split: if_splits)
    with r show ?thesis
      by (simp add: post_contributions_throws [OF r])
  next
    case (Some cd)
    with r show ?thesis
      using post_contributions_created [of b e cd lib s] by simp
  qed
qed

text \<open>The handlers of one member, by what \<open>get\<close> answers.\<close>

lemma put_members_id_null:
  "put_members_id azle_null s i b =
     (case btree_get (membersStorage s) i of
        None \<Rightarrow> ((404, Error ''Member not found''), s)
      | Some v \<Rightarrow>
          if \<not> truthy (b ''name'') \<or> \<not> truthy (b ''contact'') \<or> \<not> truthy (b ''membershipStatus'')
          then ((400, Error ''Incomplete member data''), s)
          else ((200, Message ''Member updated successfully''
                        (set_fields (Value v) (b ''name'') (b ''contact'') (b ''membershipStatus''))),
                s\<lparr>membersStorage :=
                     btree_insert i (set_fields (Value v) (b ''name'') (b ''contact'')
                                        (b ''membershipStatus'')) (membersStorage s)\<rparr>))"
  by (simp add: put_members_id_def get_answer_def Let_def split: option.splits)

lemma put_members_id_Opt:
  "put_members_id azle_Opt s i b =
     (if \<not> truthy (b ''name'') \<or> \<not> truthy (b ''contact'') \<or> \<not> truthy (b ''membershipStatus'')
      then ((400, Error ''Incomplete member data''), s)
      else ((200, Message ''Member updated successfully''
                    (Wrapped (btree_get (membersStorage s) i) (b ''name'') (b ''contact'')
                       (b ''membershipStatus''))),
            s\<lparr>membersStorage :=
                 btree_insert i (Wrapped (btree_get (membersStorage s) i) (b ''name'')
                                    (b ''contact'') (b ''membershipStatus'')) (membersStorage s)\<rparr>))"
  by (simp add: put_members_id_def get_answer_def Let_def)

lemma delete_members_id_null:
  "delete_members_id azle_null s i =
     (case btree_get (membersStorage s) i of
        None \<Rightarrow> ((404, Error ''Member not found''), s)
      | Some v \<Rightarrow> ((200, MessageOnly ''Member deleted successfully''),
                   s\<lparr>membersStorage := btree_remove i (membersStorage s)\<rparr>))"
  by (simp add: delete_members_id_def get_answer_def split: option.splits)

lemma delete_members_id_Opt:
  "delete_members_id azle_Opt s i =
     ((200, MessageOnly ''Member deleted successfully''),
      s\<lparr>membersStorage := btree_remove i (membersStorage s)\<rparr>)"
  by (simp add: delete_members_id_def get_answer_def)

lemma get_members_id_null:
  "get_members_id azle_null s i =
     (case btree_get (membersStorage s) i of
        None \<Rightarrow> (404, Error ''Member not found'')
      | Some v \<Rightarrow> (200, Entity (Value v)))"
  by (simp add: get_members_id_def get_answer_def split: option.splits)

lemma get_members_id_Opt:
  "get_members_id azle_Opt s i = (200, Entity (Opt (btree_get (membersStorage s) i)))"
  by (simp add: get_members_id_def get_answer_def)

lemma btree_remove_absent: "btree_get m k = None \<Longrightarrow> btree_remove k m = m"
  by (induction k m rule: btree_remove.induct) (auto split: if_splits)

text \<open>Every handler keeps the keys of the six stores in order.\<close>

lemma no_stores_ordered: "stores_ordered no_stores"
  by (simp add: stores_ordered_def no_stores_def key_ordered_def)

lemma post_members_ordered: "stores_ordered s \<Longrightarrow> stores_ordered (snd (post_members e s b))"
  by (cases "Member_rules b")
    (simp_all add: post_members_valid post_members_invalid stores_ordered_def key_ordered_insert)

lemma post_events_ordered: "stores_ordered s \<Longrightarrow> stores_ordered (snd (post_events e s b))"
  using post_events_cases [of b e s]
  by (auto simp: stores_ordered_def key_ordered_insert)

lemma post_donations_ordered: "stores_ordered s \<Longrightarrow> stores_ordered (snd (post_donations e s b))"
  by (cases "Donation_rules b")
    (simp_all add: post_donations_valid post_donations_invalid stores_ordered_def
      key_ordered_insert)

lemma post_contributions_ordered:
  "stores_ordered s \<Longrightarrow> stores_ordered (snd (post_contributions lib e s b))"
  using post_contributions_cases [of b lib e s]
  by (auto simp: stores_ordered_def key_ordered_insert)

lemma post_prayer_requests_ordered:
  "stores_ordered s \<Longrightarrow> stores_ordered (snd (post_prayer_requests e s b))"
  by (cases "PrayerRequest_rules b")
    (simp_all add: post_prayer_requests_valid post_prayer_requests_invalid stores_ordered_def
      key_ordered_insert)

lemma post_contents_ordered: "stores_ordered s \<Longrightarrow> stores_ordered (snd (post_contents e s b))"
  by (cases "Content_rules b")
    (simp_all add: post_contents_valid post_contents_invalid stores_ordered_def key_ordered_insert)

lemma put_members_id_ordered: "stores_ordered s \<Longrightarrow> stores_ordered (snd (put_members_id lib s i b))"
  by (cases lib)
    (auto simp: put_members_id_Opt put_members_id_null stores_ordered_def key_ordered_insert
      split: option.splits)

lemma delete_members_id_ordered:
  "stores_ordered s \<Longrightarrow> stores_ordered (snd (delete_members_id lib s i))"
  by (cases lib)
    (auto simp: delete_members_id_Opt delete_members_id_null stores_ordered_def
      key_ordered_remove split: option.splits)

section \<open>Contributions refer to members\<close>

text \<open>
  C1. The specification wants a \<open>createContribution\<close> whose fields pass validation and
  whose \<open>memberId\<close> is no key of the Member store answered with the MemberNotFoundError,
  and nothing inserted. The handler compares what \<open>get\<close> answers with \<open>undefined\<close>, and
  no release of the library answers \<open>undefined\<close> for a key that is not present: so, with
  either release, the handler never answers the MemberNotFoundError, and an input that
  passes its validation (here one that is no pledge) is answered with 201 and the
  Contribution is inserted, although its \<open>memberId\<close> is no key of the Member store.
\<close>

theorem contribution_created_without_member:
  assumes "Contribution_rules b"
    and "b ''type'' \<noteq> JString ''Pledge''"
    and "b ''memberId'' = JString k"
    and "btree_get (membersStorage s) k = None"
  shows "post_contributions lib e s b =
           ((201, Message ''Contribution created successfully''
                    \<lparr>Contribution.id' = uuidv4 e, Contribution.memberId = JString k,
                     Contribution.type = b ''type'', Contribution.amount = b ''amount'',
                     Contribution.description = b ''description'',
                     commitmentDate = Date (clock e 0), fulfillmentDate = None,
                     Contribution.createdAt = Date (clock e 1)\<rparr>),
            s\<lparr>contributionsStorage :=
                 btree_insert (uuidv4 e)
                   \<lparr>Contribution.id' = uuidv4 e, Contribution.memberId = JString k,
                    Contribution.type = b ''type'', Contribution.amount = b ''amount'',
                    Contribution.description = b ''description'',
                    commitmentDate = Date (clock e 0), fulfillmentDate = None,
                    Contribution.createdAt = Date (clock e 1)\<rparr>
                   (contributionsStorage s)\<rparr>) \<and>
         \<not> NotFoundError (fst (post_contributions lib e s b)) \<and>
         (\<forall>s' b'. \<not> NotFoundError (fst (post_contributions lib e s' b')))"
proof -
  have c: "(if b ''type'' = JString ''Pledge''
            then map_option Some (new_Date e (b ''commitmentDate'')) else Some None) = Some None"
    using assms(2) by simp
  have never: "\<not> NotFoundError (fst (post_contributions lib e s' b'))" for s' b'
    using post_contributions_cases [of b' lib e s']
    by (auto simp: NotFoundError_def)
  from never assms(3) show ?thesis
    unfolding post_contributions_created [OF assms(1) c]
    by (simp add: new_Contribution_def NotFoundError_def)
qed

theorem contribution_created_without_member_witness:
  "Contribution_rules ghost_tithe \<and> ghost_tithe ''type'' \<noteq> JString ''Pledge'' \<and>
   ghost_tithe ''memberId'' = JString ''ghost'' \<and>
   btree_get (membersStorage example_stores) ''ghost'' = None \<and>
   created (fst (post_contributions azle_Opt example_env example_stores ghost_tithe)) =
     Some \<lparr>Contribution.id' = ''c0ffee'', Contribution.memberId = JString ''ghost'',
            Contribution.type = JString ''Tithe'', Contribution.amount = JNumber (Finite 50),
            Contribution.description = JString ''Sunday'', commitmentDate = Date 1700000000000,
            fulfillmentDate = None, Contribution.createdAt = Date 1700000000000\<rparr> \<and>
   created (fst (post_contributions azle_null example_env example_stores ghost_tithe)) =
     Some \<lparr>Contribution.id' = ''c0ffee'', Contribution.memberId = JString ''ghost'',
            Contribution.type = JString ''Tithe'', Contribution.amount = JNumber (Finite 50),
            Contribution.description = JString ''Sunday'', commitmentDate = Date 1700000000000,
            fulfillmentDate = None, Contribution.createdAt = Date 1700000000000\<rparr> \<and>
   map Contribution.memberId
     (listed (get_contributions
                (snd (post_contributions azle_Opt example_env example_stores ghost_tithe))))
     = [JString ''ghost''] \<and>
   map Contribution.memberId
     (listed (get_contributions
                (snd (post_contributions azle_null example_env example_stores ghost_tithe))))
     = [JString ''ghost'']"
proof -
  have r: "Contribution_rules ghost_tithe"
    by (simp add: Contribution_rules_def ghost_tithe_def tithe_def empty_body_def)
  have t: "ghost_tithe ''type'' \<noteq> JString ''Pledge''"
    by (simp add: ghost_tithe_def tithe_def)
  have k: "ghost_tithe ''memberId'' = JString ''ghost''"
    by (simp add: ghost_tithe_def)
  have a: "btree_get (membersStorage example_stores) ''ghost'' = None"
    by (simp add: example_stores_def no_stores_def)
  have f: "ghost_tithe ''amount'' = JNumber (Finite 50)"
    "ghost_tithe ''description'' = JString ''Sunday''" "ghost_tithe ''type'' = JString ''Tithe''"
    by (simp_all add: ghost_tithe_def tithe_def)
  have e: "uuidv4 example_env = ''c0ffee''" "clock example_env 0 = 1700000000000"
    "clock example_env 1 = 1700000000000"
    by (simp_all add: example_env_def)
  have n: "contributionsStorage example_stores = []"
    by (simp add: example_stores_def no_stores_def)
  from contribution_created_without_member [OF r t k a, of azle_Opt example_env]
    contribution_created_without_member [OF r t k a, of azle_null example_env] r t k a
  show ?thesis
    unfolding f e by (simp add: btree_values_def n)
qed

section \<open>Pledges and their commitment date\<close>

text \<open>
  A pledge whose \<open>commitmentDate\<close> is present is not always created, although every other
  field is valid and the member exists. With \<open>commitmentDate: 0\<close>, the epoch and a date
  the constructor accepts, the check \<open>!req.body.commitmentDate\<close> answers the
  ValidationError, as it does for an absent date. With \<open>commitmentDate: {"toString": 1}\<close>
  the constructor of \<open>Date\<close> throws and the answer is 500.
\<close>

theorem pledge_gate_counterexample:
  "epoch_pledge ''type'' = JString ''Pledge'' \<and>
   epoch_pledge ''commitmentDate'' = JNumber (Finite 0) \<and>
   new_Date example_env (epoch_pledge ''commitmentDate'') = Some (Date 0) \<and>
   btree_get_value (membersStorage example_stores) (epoch_pledge ''memberId'') = Some (Record Ana) \<and>
   post_contributions azle_Opt example_env example_stores epoch_pledge =
     post_contributions azle_Opt example_env example_stores
       (epoch_pledge(''commitmentDate'' := JUndefined)) \<and>
   ValidationError (fst (post_contributions azle_Opt example_env example_stores epoch_pledge)) \<and>
   created (fst (post_contributions azle_Opt example_env example_stores epoch_pledge)) = None \<and>
   ValidationError (fst (post_contributions azle_null example_env example_stores epoch_pledge)) \<and>
   created (fst (post_contributions azle_null example_env example_stores epoch_pledge)) = None \<and>
   opaque_pledge ''commitmentDate'' = JObject [(''toString'', JNumber (Finite 1))] \<and>
   status (fst (post_contributions azle_Opt example_env example_stores opaque_pledge)) = 500 \<and>
   created (fst (post_contributions azle_Opt example_env example_stores opaque_pledge)) = None \<and>
   status (fst (post_contributions azle_null example_env example_stores opaque_pledge)) = 500 \<and>
   created (fst (post_contributions azle_null example_env example_stores opaque_pledge)) = None"
  by (simp add: epoch_pledge_def opaque_pledge_def pledge_def tithe_def empty_body_def
      example_stores_def no_stores_def post_contributions_def ValidationError_def created_def
      status_def get_answer_def)

text \<open>
  C2, amended. For a \<open>createContribution\<close> input of type \<open>"Pledge"\<close>: when
  \<open>commitmentDate\<close> is absent, or present and falsy, the answer is the ValidationError and
  the stores are unchanged; when \<open>commitmentDate\<close> is truthy and \<open>new Date\<close> of it
  returns a date \<open>d\<close>, the other fields are valid and \<open>memberId\<close> is a key of the Member
  store, the handler answers 201 with the created Contribution, whose commitment date is
  \<open>d\<close>, and inserts it under its id.
\<close>

theorem pledge_gate:
  assumes "b ''type'' = JString ''Pledge''"
  shows "(\<not> truthy (b ''commitmentDate'') \<longrightarrow>
            ValidationError (fst (post_contributions lib e s b)) \<and>
            snd (post_contributions lib e s b) = s) \<and>
         (truthy (b ''commitmentDate'') \<and> new_Date e (b ''commitmentDate'') = Some d \<and>
          b ''memberId'' = JString k \<and> k \<noteq> [] \<and> btree_get (membersStorage s) k = Some m \<and>
          nonzero_number (b ''amount'') \<and> nonempty_string (b ''description'') \<longrightarrow>
            post_contributions lib e s b =
              ((201, Message ''Contribution created successfully''
                       \<lparr>Contribution.id' = uuidv4 e, Contribution.memberId = b ''memberId'',
                        Contribution.type = b ''type'', Contribution.amount = b ''amount'',
                        Contribution.description = b ''description'', commitmentDate = d,
                        fulfillmentDate = None, Contribution.createdAt = Date (clock e 0)\<rparr>),
               s\<lparr>contributionsStorage :=
                    btree_insert (uuidv4 e)
                      \<lparr>Contribution.id' = uuidv4 e, Contribution.memberId = b ''memberId'',
                       Contribution.type = b ''type'', Contribution.amount = b ''amount'',
                       Contribution.description = b ''description'', commitmentDate = d,
                       fulfillmentDate = None, Contribution.createdAt = Date (clock e 0)\<rparr>
                      (contributionsStorage s)\<rparr>))"
proof (intro conjI impI)
  assume "\<not> truthy (b ''commitmentDate'')"
  with assms have "\<not> Contribution_rules b"
    by (simp add: Contribution_rules_def)
  then show "ValidationError (fst (post_contributions lib e s b))"
    and "snd (post_contributions lib e s b) = s"
    by (simp_all add: post_contributions_invalid ValidationError_def)
next
  assume a: "truthy (b ''commitmentDate'') \<and> new_Date e (b ''commitmentDate'') = Some d \<and>
          b ''memberId'' = JString k \<and> k \<noteq> [] \<and> btree_get (membersStorage s) k = Some m \<and>
          nonzero_number (b ''amount'') \<and> nonempty_string (b ''description'')"
  with assms have r: "Contribution_rules b"
    by (simp add: Contribution_rules_def)
  from a have g: "btree_get_value (membersStorage s) (b ''memberId'') = Some m"
    by simp
  from a assms have c: "(if b ''type'' = JString ''Pledge''
      then map_option Some (new_Date e (b ''commitmentDate'')) else Some None) = Some (Some d)"
    by simp
  show "post_contributions lib e s b =
              ((201, Message ''Contribution created successfully''
                       \<lparr>Contribution.id' = uuidv4 e, Contribution.memberId = b ''memberId'',
                        Contribution.type = b ''type'', Contribution.amount = b ''amount'',
                        Contribution.description = b ''description'', commitmentDate = d,
                        fulfillmentDate = None, Contribution.createdAt = Date (clock e 0)\<rparr>),
               s\<lparr>contributionsStorage :=
                    btree_insert (uuidv4 e)
                      \<lparr>Contribution.id' = uuidv4 e, Contribution.memberId = b ''memberId'',
                       Contribution.type = b ''type'', Contribution.amount = b ''amount'',
                       Contribution.description = b ''description'', commitmentDate = d,
                       fulfillmentDate = None, Contribution.createdAt = Date (clock e 0)\<rparr>
                      (contributionsStorage s)\<rparr>)"
    unfolding post_contributions_created [OF r c]
    by (simp add: new_Contribution_def)
qed

theorem pledge_gate_witness:
  "pledge ''type'' = JString ''Pledge'' \<and> truthy (pledge ''commitmentDate'') \<and>
   new_Date example_env (pledge ''commitmentDate'') = Some (Date 1704067200000) \<and>
   btree_get (membersStorage example_stores) ''M1'' = Some (Record Ana) \<and>
   \<not> truthy (tithe ''commitmentDate'') \<and>
   ValidationError (fst (post_contributions azle_Opt example_env example_stores
                           (tithe(''type'' := JString ''Pledge'')))) \<and>
   created (fst (post_contributions azle_Opt example_env example_stores pledge)) =
     Some \<lparr>Contribution.id' = ''c0ffee'', Contribution.memberId = JString ''M1'',
            Contribution.type = JString ''Pledge'', Contribution.amount = JNumber (Finite 50),
            Contribution.description = JString ''Sunday'', commitmentDate = Date 1704067200000,
            fulfillmentDate = None, Contribution.createdAt = Date 1700000000000\<rparr>"
proof -
  have p: "pledge ''type'' = JString ''Pledge''"
    and q: "(tithe(''type'' := JString ''Pledge'')) ''type'' = JString ''Pledge''"
    by (simp_all add: pledge_def)
  have h: "truthy (pledge ''commitmentDate'') \<and>
     new_Date example_env (pledge ''commitmentDate'') = Some (Date 1704067200000) \<and>
     pledge ''memberId'' = JString ''M1'' \<and> ''M1'' \<noteq> [] \<and>
     btree_get (membersStorage example_stores) ''M1'' = Some (Record Ana) \<and>
     nonzero_number (pledge ''amount'') \<and> nonempty_string (pledge ''description'')"
    by (simp add: pledge_def tithe_def empty_body_def example_env_def example_stores_def
        no_stores_def)
  have n: "\<not> truthy ((tithe(''type'' := JString ''Pledge'')) ''commitmentDate'')"
    "\<not> truthy (tithe ''commitmentDate'')"
    by (simp_all add: tithe_def empty_body_def)
  from pledge_gate [where b = pledge and e = example_env and d = "Date 1704067200000"
      and k = "''M1''" and s = example_stores and m = "Record Ana" and lib = azle_Opt, OF p]
    pledge_gate [where b = "tithe(''type'' := JString ''Pledge'')" and e = example_env
      and s = example_stores and lib = azle_Opt, OF q] h n p
  show ?thesis
    by (simp add: created_def example_env_def pledge_def tithe_def empty_body_def)
qed

section \<open>Validation comes first\<close>

text \<open>
  An input can violate the rule of its entity and pass the check of the handler: an event
  whose \<open>dateTime\<close> is \<open>2^53\<close>, a number that is no timestamp, violates the Event rule of
  the specification, and \<open>createEvent\<close> answers 201 and inserts the event.
\<close>

theorem validation_rule_counterexample:
  "\<not> timestamp_coercible example_env (late_picnic ''dateTime'') \<and>
   \<not> Event_rule_of_specification example_env late_picnic \<and>
   \<not> ValidationError (fst (post_events example_env no_stores late_picnic)) \<and>
   status (fst (post_events example_env no_stores late_picnic)) = 201 \<and>
   map fst (eventsStorage (snd (post_events example_env no_stores late_picnic))) = [''c0ffee''] \<and>
   eventsStorage no_stores = []"
  by (simp add: late_picnic_def picnic_def empty_body_def post_events_def ValidationError_def
      Let_def new_Event_def no_stores_def timestamp_coercible_def Event_rule_of_specification_def
      status_def example_env_def)

text \<open>
  C3, amended. For each of the six create operations, an input gets the ValidationError
  exactly when it fails the check its handler makes: a required string is missing, empty
  or no string; an \<open>amount\<close> is missing, zero or no number; the \<open>dateTime\<close> of an Event or
  the \<open>commitmentDate\<close> of a pledge is missing or falsy (whether it is timestamp-coercible
  is not checked). Then the stores are returned as they were, and the response is the
  same whatever the stores hold and whatever \<open>get\<close> answers: the check reads no store. So
  for a Contribution a field that fails the check is reported as a ValidationError also
  when the \<open>memberId\<close> is no key of the Member store.
\<close>

theorem invalid_input_rejected_before_any_store_access:
  "(ValidationError (fst (post_members e s b)) \<longleftrightarrow> \<not> Member_rules b) \<and>
   (\<not> Member_rules b \<longrightarrow>
      snd (post_members e s b) = s \<and>
      fst (post_members e s b) = fst (post_members e s' b)) \<and>
   (ValidationError (fst (post_events e s b)) \<longleftrightarrow> \<not> Event_rules b) \<and>
   (\<not> Event_rules b \<longrightarrow>
      snd (post_events e s b) = s \<and>
      fst (post_events e s b) = fst (post_events e s' b)) \<and>
   (ValidationError (fst (post_donations e s b)) \<longleftrightarrow> \<not> Donation_rules b) \<and>
   (\<not> Donation_rules b \<longrightarrow>
      snd (post_donations e s b) = s \<and>
      fst (post_donations e s b) = fst (post_donations e s' b)) \<and>
   (ValidationError (fst (post_contributions lib e s b)) \<longleftrightarrow> \<not> Contribution_rules b) \<and>
   (\<not> Contribution_rules b \<longrightarrow>
      snd (post_contributions lib e s b) = s \<and>
      fst (post_contributions lib e s b) = fst (post_contributions lib' e s' b)) \<and>
   (ValidationError (fst (post_prayer_requests e s b)) \<longleftrightarrow> \<not> PrayerRequest_rules b) \<and>
   (\<not> PrayerRequest_rules b \<longrightarrow>
      snd (post_prayer_requests e s b) = s \<and>
      fst (post_prayer_requests e s b) = fst (post_prayer_requests e s' b)) \<and>
   (ValidationError (fst (post_contents e s b)) \<longleftrightarrow> \<not> Content_rules b) \<and>
   (\<not> Content_rules b \<longrightarrow>
      snd (post_contents e s b) = s \<and>
      fst (post_contents e s b) = fst (post_contents e s' b))"
proof -
  have m: "ValidationError (fst (post_members e s b)) \<longleftrightarrow> \<not> Member_rules b"
    by (cases "Member_rules b")
      (simp_all add: post_members_valid post_members_invalid ValidationError_def)
  have ev: "ValidationError (fst (post_events e s b)) \<longleftrightarrow> \<not> Event_rules b"
    using post_events_cases [of b e s] by (auto simp: ValidationError_def)
  have d: "ValidationError (fst (post_donations e s b)) \<longleftrightarrow> \<not> Donation_rules b"
    by (cases "Donation_rules b")
      (simp_all add: post_donations_valid post_donations_invalid ValidationError_def)
  have c: "ValidationError (fst (post_contributions lib e s b)) \<longleftrightarrow> \<not> Contribution_rules b"
    using post_contributions_cases [of b lib e s] by (auto simp: ValidationError_def)
  have p: "ValidationError (fst (post_prayer_requests e s b)) \<longleftrightarrow> \<not> PrayerRequest_rules b"
    by (cases "PrayerRequest_rules b")
      (simp_all add: post_prayer_requests_valid post_prayer_requests_invalid ValidationError_def)
  have ct: "ValidationError (fst (post_contents e s b)) \<longleftrightarrow> \<not> Content_rules b"
    by (cases "Content_rules b")
      (simp_all add: post_contents_valid post_contents_invalid ValidationError_def)
  show ?thesis
    unfolding m ev d c p ct
    by (simp add: post_members_invalid post_events_invalid post_donations_invalid
        post_contributions_invalid post_prayer_requests_invalid post_contents_invalid)
qed

theorem invalid_input_rejected_before_any_store_access_witness:
  "\<not> Member_rules numbered_member \<and> \<not> Event_rules untitled_picnic \<and>
   \<not> Donation_rules quoted_donation \<and> \<not> Contribution_rules ghost_undated_pledge \<and>
   \<not> PrayerRequest_rules silent_prayer \<and> \<not> Content_rules untitled_sermon \<and>
   Member_rules ana_body \<and>
   ValidationError (fst (post_members example_env busy_stores numbered_member)) \<and>
   snd (post_members example_env busy_stores numbered_member) = busy_stores \<and>
   ValidationError (fst (post_events example_env busy_stores untitled_picnic)) \<and>
   snd (post_events example_env busy_stores untitled_picnic) = busy_stores \<and>
   ValidationError (fst (post_donations example_env busy_stores quoted_donation)) \<and>
   snd (post_donations example_env busy_stores quoted_donation) = busy_stores \<and>
   btree_get (membersStorage busy_stores) ''ghost'' = None \<and>
   ValidationError (fst (post_contributions azle_Opt example_env busy_stores ghost_undated_pledge)) \<and>
   ValidationError (fst (post_contributions azle_null example_env busy_stores ghost_undated_pledge)) \<and>
   snd (post_contributions azle_Opt example_env busy_stores ghost_undated_pledge) = busy_stores \<and>
   fst (post_contributions azle_Opt example_env busy_stores ghost_undated_pledge)
     = fst (post_contributions azle_null example_env no_stores ghost_undated_pledge) \<and>
   ValidationError (fst (post_prayer_requests example_env busy_stores silent_prayer)) \<and>
   snd (post_prayer_requests example_env busy_stores silent_prayer) = busy_stores \<and>
   ValidationError (fst (post_contents example_env busy_stores untitled_sermon)) \<and>
   snd (post_contents example_env busy_stores untitled_sermon) = busy_stores \<and>
   \<not> ValidationError (fst (post_members example_env busy_stores ana_body))"
proof -
  have v: "\<not> Member_rules numbered_member" "\<not> Event_rules untitled_picnic"
    "\<not> Donation_rules quoted_donation" "\<not> Contribution_rules ghost_undated_pledge"
    "\<not> PrayerRequest_rules silent_prayer" "\<not> Content_rules untitled_sermon"
    "Member_rules ana_body"
    by (simp_all add: Member_rules_def Event_rules_def Donation_rules_def Contribution_rules_def
        PrayerRequest_rules_def Content_rules_def numbered_member_def untitled_picnic_def
        quoted_donation_def ghost_undated_pledge_def silent_prayer_def untitled_sermon_def
        ana_body_def picnic_def donation50_def ghost_tithe_def tithe_def prayer_def sermon_def
        empty_body_def)
  have g: "btree_get (membersStorage busy_stores) ''ghost'' = None"
    by (simp add: busy_stores_def)
  have M: "ValidationError (fst (post_members example_env busy_stores numbered_member)) \<and>
      snd (post_members example_env busy_stores numbered_member) = busy_stores"
    using invalid_input_rejected_before_any_store_access
      [where e = example_env and s = busy_stores and b = numbered_member] v(1)
    by blast
  have E: "ValidationError (fst (post_events example_env busy_stores untitled_picnic)) \<and>
      snd (post_events example_env busy_stores untitled_picnic) = busy_stores"
    using invalid_input_rejected_before_any_store_access
      [where e = example_env and s = busy_stores and b = untitled_picnic] v(2)
    by blast
  have D: "ValidationError (fst (post_donations example_env busy_stores quoted_donation)) \<and>
      snd (post_donations example_env busy_stores quoted_donation) = busy_stores"
    using invalid_input_rejected_before_any_store_access
      [where e = example_env and s = busy_stores and b = quoted_donation] v(3)
    by blast
  have C: "ValidationError
        (fst (post_contributions azle_Opt example_env busy_stores ghost_undated_pledge)) \<and>
      snd (post_contributions azle_Opt example_env busy_stores ghost_undated_pledge) = busy_stores \<and>
      fst (post_contributions azle_Opt example_env busy_stores ghost_undated_pledge)
        = fst (post_contributions azle_null example_env no_stores ghost_undated_pledge)"
    using invalid_input_rejected_before_any_store_access
      [where e = example_env and s = busy_stores and b = ghost_undated_pledge
        and s' = no_stores and lib = azle_Opt and lib' = azle_null] v(4)
    by blast
  have C': "ValidationError
        (fst (post_contributions azle_null example_env busy_stores ghost_undated_pledge))"
    using invalid_input_rejected_before_any_store_access
      [where e = example_env and s = busy_stores and b = ghost_undated_pledge
        and lib = azle_null] v(4)
    by blast
  have P: "ValidationError (fst (post_prayer_requests example_env busy_stores silent_prayer)) \<and>
      snd (post_prayer_requests example_env busy_stores silent_prayer) = busy_stores"
    using invalid_input_rejected_before_any_store_access
      [where e = example_env and s = busy_stores and b = silent_prayer] v(5)
    by blast
  have S: "ValidationError (fst (post_contents example_env busy_stores untitled_sermon)) \<and>
      snd (post_contents example_env busy_stores untitled_sermon) = busy_stores"
    using invalid_input_rejected_before_any_store_access
      [where e = example_env and s = busy_stores and b = untitled_sermon] v(6)
    by blast
  have A: "\<not> ValidationError (fst (post_members example_env busy_stores ana_body))"
    using invalid_input_rejected_before_any_store_access
      [where e = example_env and s = busy_stores and b = ana_body] v(7)
    by blast
  from v g M E D C C' P S A show ?thesis
    by blast
qed

section \<open>Members that are not there\<close>

text \<open>
  C4. The specification wants \<open>updateMember\<close>, \<open>deleteMember\<close> and \<open>getMember\<close> on an id
  that is no key of the Member store answered with the NotFoundError, and no store
  changed. The handlers test \<open>!member\<close>. Where \<open>get\<close> answers \<open>null\<close> for such a key
  (release 0.23.0) they do so. Where \<open>get\<close> answers the object \<open>{None: null}\<close> (releases
  0.20 to 0.22) the test never holds: \<open>getMember\<close> answers 200 with \<open>{None: null}\<close>,
  \<open>deleteMember\<close> answers 200 and leaves the stores as they were, and \<open>updateMember\<close>
  answers the ValidationError for a body that is not complete and otherwise answers 200
  and inserts \<open>{None: null, name, contact, membershipStatus}\<close> under the id.
\<close>

theorem absent_member_by_release:
  assumes "btree_get (membersStorage s) i = None"
  shows "put_members_id azle_null s i b = ((404, Error ''Member not found''), s) \<and>
         delete_members_id azle_null s i = ((404, Error ''Member not found''), s) \<and>
         get_members_id azle_null s i = (404, Error ''Member not found'') \<and>
         NotFoundError (fst (put_members_id azle_null s i b)) \<and>
         NotFoundError (fst (delete_members_id azle_null s i)) \<and>
         NotFoundError (get_members_id azle_null s i) \<and>
         get_members_id azle_Opt s i = (200, Entity (Opt None)) \<and>
         delete_members_id azle_Opt s i
           = ((200, MessageOnly ''Member deleted successfully''), s) \<and>
         (\<not> (truthy (b ''name'') \<and> truthy (b ''contact'') \<and> truthy (b ''membershipStatus'')) \<longrightarrow>
            put_members_id azle_Opt s i b = ((400, Error ''Incomplete member data''), s)) \<and>
         (truthy (b ''name'') \<and> truthy (b ''contact'') \<and> truthy (b ''membershipStatus'') \<longrightarrow>
            put_members_id azle_Opt s i b =
              ((200, Message ''Member updated successfully''
                       (Wrapped None (b ''name'') (b ''contact'') (b ''membershipStatus''))),
               s\<lparr>membersStorage :=
                    btree_insert i (Wrapped None (b ''name'') (b ''contact'')
                                      (b ''membershipStatus'')) (membersStorage s)\<rparr>))"
  using assms
  by (simp add: put_members_id_null put_members_id_Opt delete_members_id_null
      delete_members_id_Opt get_members_id_null get_members_id_Opt NotFoundError_def
      btree_remove_absent)

theorem absent_member_by_release_witness:
  "btree_get (membersStorage busy_stores) ''nonexistent-id'' = None \<and>
   truthy (ana_body ''name'') \<and> truthy (ana_body ''contact'') \<and>
   truthy (ana_body ''membershipStatus'') \<and> \<not> truthy (empty_body ''name'') \<and>
   put_members_id azle_null busy_stores ''nonexistent-id'' ana_body
     = ((404, Error ''Member not found''), busy_stores) \<and>
   delete_members_id azle_null busy_stores ''nonexistent-id''
     = ((404, Error ''Member not found''), busy_stores) \<and>
   get_members_id azle_null busy_stores ''nonexistent-id'' = (404, Error ''Member not found'') \<and>
   get_members_id azle_Opt busy_stores ''nonexistent-id'' = (200, Entity (Opt None)) \<and>
   delete_members_id azle_Opt busy_stores ''nonexistent-id''
     = ((200, MessageOnly ''Member deleted successfully''), busy_stores) \<and>
   put_members_id azle_Opt busy_stores ''nonexistent-id'' empty_body
     = ((400, Error ''Incomplete member data''), busy_stores) \<and>
   fst (put_members_id azle_Opt busy_stores ''nonexistent-id'' ana_body)
     = (200, Message ''Member updated successfully''
               (Wrapped None (JString ''Ana'') (JString ''a@x.com'') (JString ''Active''))) \<and>
   btree_get (membersStorage (snd (put_members_id azle_Opt busy_stores ''nonexistent-id'' ana_body)))
       ''nonexistent-id''
     = Some (Wrapped None (JString ''Ana'') (JString ''a@x.com'') (JString ''Active''))"
proof -
  have absent: "btree_get (membersStorage busy_stores) ''nonexistent-id'' = None"
    by (simp add: busy_stores_def)
  have t: "truthy (ana_body ''name'') \<and> truthy (ana_body ''contact'') \<and>
      truthy (ana_body ''membershipStatus'')" "\<not> truthy (empty_body ''name'')"
    by (simp_all add: ana_body_def empty_body_def)
  have f: "ana_body ''name'' = JString ''Ana''" "ana_body ''contact'' = JString ''a@x.com''"
    "ana_body ''membershipStatus'' = JString ''Active''"
    by (simp_all add: ana_body_def)
  from absent_member_by_release [OF absent, of ana_body]
    absent_member_by_release [OF absent, of empty_body] absent t
  show ?thesis
    unfolding f by (simp add: btree_get_insert)
qed

section \<open>Reading back what was created\<close>

text \<open>
  Not every supplied field is stored as given: a tithe created with a \<open>commitmentDate\<close>
  of 1 January 2024 is stored, and listed, with the time of its creation as its
  commitment date.
\<close>

theorem round_trip_counterexample:
  "Contribution_rules dated_tithe \<and>
   dated_tithe ''commitmentDate'' = JString ''2024-01-01T00:00:00.000Z'' \<and>
   new_Date example_env (dated_tithe ''commitmentDate'') = Some (Date 1704067200000) \<and>
   map_option commitmentDate
     (created (fst (post_contributions azle_Opt example_env example_stores dated_tithe)))
     = Some (Date 1700000000000) \<and>
   map commitmentDate
     (listed (get_contributions (snd (post_contributions azle_Opt example_env example_stores dated_tithe))))
     = [Date 1700000000000]"
proof -
  have r: "Contribution_rules dated_tithe"
    by (simp add: Contribution_rules_def dated_tithe_def tithe_def empty_body_def)
  have g: "btree_get_value (membersStorage example_stores) (dated_tithe ''memberId'') = Some (Record Ana)"
    by (simp add: dated_tithe_def tithe_def example_stores_def no_stores_def)
  have c: "(if dated_tithe ''type'' = JString ''Pledge''
            then map_option Some (new_Date example_env (dated_tithe ''commitmentDate''))
            else Some None) = Some None"
    by (simp add: dated_tithe_def tithe_def)
  show ?thesis
    using r
    by (simp add: post_contributions_created [OF r c] new_Contribution_def btree_values_def)
      (simp add: dated_tithe_def example_env_def example_stores_def no_stores_def)
qed

lemma member_round_trip:
  "(Member_rules b \<longrightarrow> created (fst (post_members e s b)) \<noteq> None) \<and>
   (\<forall>r. created (fst (post_members e s b)) = Some r \<longrightarrow>
      r = \<lparr>Member.id' = uuidv4 e, name = b ''name'', contact = b ''contact'',
           membershipStatus = b ''membershipStatus'', Member.createdAt = Date (clock e 0)\<rparr> \<and>
      get_members_id azle_null (snd (post_members e s b)) (uuidv4 e)
        = (200, Entity (Value (Record r))) \<and>
      Record r \<in> set (listed (get_members (snd (post_members e s b)))))"
  by (cases "Member_rules b")
    (simp_all add: post_members_valid post_members_invalid new_Member_def get_members_id_null
      btree_get_insert btree_values_insert)

lemma event_round_trip:
  "(Event_rules b \<and> new_Date e (b ''dateTime'') \<noteq> None \<longrightarrow>
      created (fst (post_events e s b)) \<noteq> None) \<and>
   (\<forall>r. created (fst (post_events e s b)) = Some r \<longrightarrow>
      new_Date e (b ''dateTime'') = Some (dateTime r) \<and>
      r = \<lparr>Event.id' = uuidv4 e, Event.title = b ''title'', Event.description = b ''description'',
           dateTime = dateTime r, location = b ''location'',
           Event.createdAt = Date (clock e 0)\<rparr> \<and>
      r \<in> set (listed (get_events (snd (post_events e s b)))))"
  using post_events_cases [of b e s]
  by (auto simp: new_Event_def btree_values_insert)

lemma donation_round_trip:
  "(Donation_rules b \<longrightarrow> created (fst (post_donations e s b)) \<noteq> None) \<and>
   (\<forall>r. created (fst (post_donations e s b)) = Some r \<longrightarrow>
      r = \<lparr>Donation.id' = uuidv4 e, donorId = b ''donorId'', Donation.amount = b ''amount'',
           Donation.createdAt = Date (clock e 0)\<rparr> \<and>
      r \<in> set (listed (get_donations (snd (post_donations e s b)))))"
  by (cases "Donation_rules b")
    (simp_all add: post_donations_valid post_donations_invalid new_Donation_def
      btree_values_insert)

lemma prayer_request_round_trip:
  "(PrayerRequest_rules b \<longrightarrow> created (fst (post_prayer_requests e s b)) \<noteq> None) \<and>
   (\<forall>r. created (fst (post_prayer_requests e s b)) = Some r \<longrightarrow>
      r = \<lparr>PrayerRequest.id' = uuidv4 e, PrayerRequest.memberId = b ''memberId'',
           request = b ''request'', PrayerRequest.createdAt = Date (clock e 0)\<rparr> \<and>
      r \<in> set (listed (get_prayer_requests (snd (post_prayer_requests e s b)))))"
  by (cases "PrayerRequest_rules b")
    (simp_all add: post_prayer_requests_valid post_prayer_requests_invalid new_PrayerRequest_def
      btree_values_insert)

lemma content_round_trip:
  "(Content_rules b \<longrightarrow> created (fst (post_contents e s b)) \<noteq> None) \<and>
   (\<forall>r. created (fst (post_contents e s b)) = Some r \<longrightarrow>
      r = \<lparr>Content.id' = uuidv4 e, Content.type = b ''type'', Content.title = b ''title'',
           content = b ''content'', Content.createdAt = Date (clock e 0)\<rparr> \<and>
      r \<in> set (listed (get_contents (snd (post_contents e s b)))))"
  by (cases "Content_rules b")
    (simp_all add: post_contents_valid post_contents_invalid new_Content_def btree_values_insert)

lemma contribution_round_trip:
  "(Contribution_rules b \<and> btree_get_value (membersStorage s) (b ''memberId'') \<noteq> None \<and>
    (b ''type'' = JString ''Pledge'' \<longrightarrow> new_Date e (b ''commitmentDate'') \<noteq> None) \<longrightarrow>
      created (fst (post_contributions lib e s b)) \<noteq> None) \<and>
   (\<forall>r. created (fst (post_contributions lib e s b)) = Some r \<longrightarrow>
      r = \<lparr>Contribution.id' = uuidv4 e, Contribution.memberId = b ''memberId'',
           Contribution.type = b ''type'', Contribution.amount = b ''amount'',
           Contribution.description = b ''description'', commitmentDate = commitmentDate r,
           fulfillmentDate = None, Contribution.createdAt = Contribution.createdAt r\<rparr> \<and>
      (if b ''type'' = JString ''Pledge''
       then new_Date e (b ''commitmentDate'') = Some (commitmentDate r) \<and>
            Contribution.createdAt r = Date (clock e 0)
       else commitmentDate r = Date (clock e 0) \<and> Contribution.createdAt r = Date (clock e 1)) \<and>
      r \<in> set (listed (get_contributions (snd (post_contributions lib e s b)))))"
  using post_contributions_cases [where b = b and lib = lib and e = e and s = s]
  by (auto simp: new_Contribution_def btree_values_insert split: if_splits)

text \<open>
  C5, amended. After a successful create, the created record is listed by the list
  operation of its type (and a Member is returned by \<open>getMember\<close> at its id where \<open>get\<close>
  answers the value itself), and it is made of the generated id, the clock reading
  \<open>createdAt\<close> and the input fields, with these exceptions: the \<open>dateTime\<close> of an Event
  and the \<open>commitmentDate\<close> of a pledge are the \<open>Date\<close> constructed from the input
  value; the \<open>commitmentDate\<close> of a Contribution that is no pledge is the clock reading of
  the constructor, whatever the input supplies; a Contribution has the further field
  \<open>fulfillmentDate\<close>, which is \<open>null\<close>. A create succeeds when the validation rule holds
  and, for an Event or a pledge, the constructor of \<open>Date\<close> returns, and, for a
  Contribution, the member exists.
\<close>

theorem create_round_trip:
  "((Member_rules b \<longrightarrow> created (fst (post_members e s b)) \<noteq> None) \<and>
    (\<forall>r. created (fst (post_members e s b)) = Some r \<longrightarrow>
       r = \<lparr>Member.id' = uuidv4 e, name = b ''name'', contact = b ''contact'',
            membershipStatus = b ''membershipStatus'', Member.createdAt = Date (clock e 0)\<rparr> \<and>
       get_members_id azle_null (snd (post_members e s b)) (uuidv4 e)
         = (200, Entity (Value (Record r))) \<and>
       Record r \<in> set (listed (get_members (snd (post_members e s b)))))) \<and>
   ((Event_rules b \<and> new_Date e (b ''dateTime'') \<noteq> None \<longrightarrow>
       created (fst (post_events e s b)) \<noteq> None) \<and>
    (\<forall>r. created (fst (post_events e s b)) = Some r \<longrightarrow>
       new_Date e (b ''dateTime'') = Some (dateTime r) \<and>
       r = \<lparr>Event.id' = uuidv4 e, Event.title = b ''title'', Event.description = b ''description'',
            dateTime = dateTime r, location = b ''location'',
            Event.createdAt = Date (clock e 0)\<rparr> \<and>
       r \<in> set (listed (get_events (snd (post_events e s b)))))) \<and>
   ((Donation_rules b \<longrightarrow> created (fst (post_donations e s b)) \<noteq> None) \<and>
    (\<forall>r. created (fst (post_donations e s b)) = Some r \<longrightarrow>
       r = \<lparr>Donation.id' = uuidv4 e, donorId = b ''donorId'', Donation.amount = b ''amount'',
            Donation.createdAt = Date (clock e 0)\<rparr> \<and>
       r \<in> set (listed (get_donations (snd (post_donations e s b)))))) \<and>
   ((Contribution_rules b \<and> btree_get_value (membersStorage s) (b ''memberId'') \<noteq> None \<and>
     (b ''type'' = JString ''Pledge'' \<longrightarrow> new_Date e (b ''commitmentDate'') \<noteq> None) \<longrightarrow>
       created (fst (post_contributions lib e s b)) \<noteq> None) \<and>
    (\<forall>r. created (fst (post_contributions lib e s b)) = Some r \<longrightarrow>
       r = \<lparr>Contribution.id' = uuidv4 e, Contribution.memberId = b ''memberId'',
            Contribution.type = b ''type'', Contribution.amount = b ''amount'',
            Contribution.description = b ''description'', commitmentDate = commitmentDate r,
            fulfillmentDate = None, Contribution.createdAt = Contribution.createdAt r\<rparr> \<and>
       (if b ''type'' = JString ''Pledge''
        then new_Date e (b ''commitmentDate'') = Some (commitmentDate r) \<and>
             Contribution.createdAt r = Date (clock e 0)
        else commitmentDate r = Date (clock e 0) \<and> Contribution.createdAt r = Date (clock e 1)) \<and>
       r \<in> set (listed (get_contributions (snd (post_contributions lib e s b)))))) \<and>
   ((PrayerRequest_rules b \<longrightarrow> created (fst (post_prayer_requests e s b)) \<noteq> None) \<and>
    (\<forall>r. created (fst (post_prayer_requests e s b)) = Some r \<longrightarrow>
       r = \<lparr>PrayerRequest.id' = uuidv4 e, PrayerRequest.memberId = b ''memberId'',
            request = b ''request'', PrayerRequest.createdAt = Date (clock e 0)\<rparr> \<and>
       r \<in> set (listed (get_prayer_requests (snd (post_prayer_requests e s b)))))) \<and>
   ((Content_rules b \<longrightarrow> created (fst (post_contents e s b)) \<noteq> None) \<and>
    (\<forall>r. created (fst (post_contents e s b)) = Some r \<longrightarrow>
       r = \<lparr>Content.id' = uuidv4 e, Content.type = b ''type'', Content.title = b ''title'',
            content = b ''content'', Content.createdAt = Date (clock e 0)\<rparr> \<and>
       r \<in> set (listed (get_contents (snd (post_contents e s b))))))"
  by (rule conjI, rule member_round_trip, rule conjI, rule event_round_trip,
      rule conjI, rule donation_round_trip, rule conjI, rule contribution_round_trip,
      rule conjI, rule prayer_request_round_trip, rule content_round_trip)

theorem create_round_trip_witness:
  "Member_rules ana_body \<and> Event_rules picnic \<and> Donation_rules donation50 \<and>
   Contribution_rules pledge \<and> Contribution_rules tithe \<and> PrayerRequest_rules prayer \<and>
   Content_rules sermon \<and>
   get_members_id azle_null (snd (post_members example_env no_stores ana_body)) ''c0ffee'' =
     (200, Entity (Value (Record
        \<lparr>Member.id' = ''c0ffee'', name = JString ''Ana'', contact = JString ''a@x.com'',
         membershipStatus = JString ''Active'',
         Member.createdAt = Date 1700000000000\<rparr>))) \<and>
   Record \<lparr>Member.id' = ''c0ffee'', name = JString ''Ana'', contact = JString ''a@x.com'',
           membershipStatus = JString ''Active'', Member.createdAt = Date 1700000000000\<rparr>
     \<in> set (listed (get_members (snd (post_members example_env no_stores ana_body)))) \<and>
   \<lparr>Event.id' = ''c0ffee'', Event.title = JString ''Picnic'',
    Event.description = JString ''Annual picnic'', dateTime = Date 1704067200000,
    location = JString ''Park'', Event.createdAt = Date 1700000000000\<rparr>
     \<in> set (listed (get_events (snd (post_events example_env no_stores picnic)))) \<and>
   \<lparr>Donation.id' = ''c0ffee'', donorId = JString ''D1'',
    Donation.amount = JNumber (Finite 50), Donation.createdAt = Date 1700000000000\<rparr>
     \<in> set (listed (get_donations (snd (post_donations example_env no_stores donation50)))) \<and>
   \<lparr>Contribution.id' = ''c0ffee'', Contribution.memberId = JString ''M1'',
    Contribution.type = JString ''Pledge'', Contribution.amount = JNumber (Finite 50),
    Contribution.description = JString ''Sunday'', commitmentDate = Date 1704067200000,
    fulfillmentDate = None, Contribution.createdAt = Date 1700000000000\<rparr>
     \<in> set (listed (get_contributions
                      (snd (post_contributions azle_Opt example_env example_stores pledge)))) \<and>
   \<lparr>Contribution.id' = ''c0ffee'', Contribution.memberId = JString ''M1'',
    Contribution.type = JString ''Tithe'', Contribution.amount = JNumber (Finite 50),
    Contribution.description = JString ''Sunday'', commitmentDate = Date 1700000000000,
    fulfillmentDate = None, Contribution.createdAt = Date 1700000000000\<rparr>
     \<in> set (listed (get_contributions
                      (snd (post_contributions azle_Opt example_env example_stores tithe)))) \<and>
   \<lparr>PrayerRequest.id' = ''c0ffee'', PrayerRequest.memberId = JString ''M1'',
    request = JString ''Health'', PrayerRequest.createdAt = Date 1700000000000\<rparr>
     \<in> set (listed (get_prayer_requests
                      (snd (post_prayer_requests example_env no_stores prayer)))) \<and>
   \<lparr>Content.id' = ''c0ffee'', Content.type = JString ''Sermon'',
    Content.title = JString ''Hope'', content = JString ''Text'',
    Content.createdAt = Date 1700000000000\<rparr>
     \<in> set (listed (get_contents (snd (post_contents example_env no_stores sermon))))"
proof -
  have rules: "Member_rules ana_body" "Event_rules picnic" "Donation_rules donation50"
    "Contribution_rules pledge" "Contribution_rules tithe" "PrayerRequest_rules prayer"
    "Content_rules sermon"
    by (simp_all add: Member_rules_def Event_rules_def Donation_rules_def Contribution_rules_def
        PrayerRequest_rules_def Content_rules_def ana_body_def picnic_def donation50_def pledge_def
        tithe_def prayer_def sermon_def empty_body_def)
  have dates: "new_Date example_env (picnic ''dateTime'') = Some (Date 1704067200000)"
    "new_Date example_env (pledge ''commitmentDate'') = Some (Date 1704067200000)"
    by (simp_all add: picnic_def pledge_def example_env_def)
  have found: "btree_get_value (membersStorage example_stores) (pledge ''memberId'') = Some (Record Ana)"
    "btree_get_value (membersStorage example_stores) (tithe ''memberId'') = Some (Record Ana)"
    by (simp_all add: pledge_def tithe_def example_stores_def no_stores_def)
  have types: "pledge ''type'' = JString ''Pledge''" "tithe ''type'' \<noteq> JString ''Pledge''"
    by (simp_all add: pledge_def tithe_def)
  have m: "created (fst (post_members example_env no_stores ana_body)) =
      Some (new_Member example_env (ana_body ''name'') (ana_body ''contact'') (ana_body ''membershipStatus''))"
    by (simp add: post_members_valid rules)
  have ev: "created (fst (post_events example_env no_stores picnic)) =
      Some (new_Event example_env (picnic ''title'') (picnic ''description'')
              (Date 1704067200000) (picnic ''location''))"
    by (simp add: post_events_valid rules dates)
  have d: "created (fst (post_donations example_env no_stores donation50)) =
      Some (new_Donation example_env (donation50 ''donorId'') (donation50 ''amount''))"
    by (simp add: post_donations_valid rules)
  have p: "created (fst (post_contributions azle_Opt example_env example_stores pledge)) =
      Some (new_Contribution example_env (pledge ''memberId'') (pledge ''type'')
              (pledge ''amount'') (pledge ''description'') (Some (Date 1704067200000)))"
    using post_contributions_created [where b = pledge and e = example_env and lib = azle_Opt
        and s = example_stores and cd = "Some (Date 1704067200000)", OF rules(4)]
      types dates
    by simp
  have t: "created (fst (post_contributions azle_Opt example_env example_stores tithe)) =
      Some (new_Contribution example_env (tithe ''memberId'') (tithe ''type'')
              (tithe ''amount'') (tithe ''description'') None)"
    using post_contributions_created [where b = tithe and e = example_env and lib = azle_Opt
        and s = example_stores and cd = None, OF rules(5)] types
    by simp
  have pr: "created (fst (post_prayer_requests example_env no_stores prayer)) =
      Some (new_PrayerRequest example_env (prayer ''memberId'') (prayer ''request''))"
    by (simp add: post_prayer_requests_valid rules)
  have ct: "created (fst (post_contents example_env no_stores sermon)) =
      Some (new_Content example_env (sermon ''type'') (sermon ''title'') (sermon ''content''))"
    by (simp add: post_contents_valid rules)
  have recs:
    "new_Member example_env (ana_body ''name'') (ana_body ''contact'') (ana_body ''membershipStatus'') =
       \<lparr>Member.id' = ''c0ffee'', name = JString ''Ana'', contact = JString ''a@x.com'',
        membershipStatus = JString ''Active'', Member.createdAt = Date 1700000000000\<rparr>"
    "new_Event example_env (picnic ''title'') (picnic ''description'')
         (Date 1704067200000) (picnic ''location'') =
       \<lparr>Event.id' = ''c0ffee'', Event.title = JString ''Picnic'',
        Event.description = JString ''Annual picnic'', dateTime = Date 1704067200000,
        location = JString ''Park'', Event.createdAt = Date 1700000000000\<rparr>"
    "new_Donation example_env (donation50 ''donorId'') (donation50 ''amount'') =
       \<lparr>Donation.id' = ''c0ffee'', donorId = JString ''D1'',
        Donation.amount = JNumber (Finite 50), Donation.createdAt = Date 1700000000000\<rparr>"
    "new_Contribution example_env (pledge ''memberId'') (pledge ''type'')
         (pledge ''amount'') (pledge ''description'') (Some (Date 1704067200000)) =
       \<lparr>Contribution.id' = ''c0ffee'', Contribution.memberId = JString ''M1'',
        Contribution.type = JString ''Pledge'', Contribution.amount = JNumber (Finite 50),
        Contribution.description = JString ''Sunday'', commitmentDate = Date 1704067200000,
        fulfillmentDate = None, Contribution.createdAt = Date 1700000000000\<rparr>"
    "new_Contribution example_env (tithe ''memberId'') (tithe ''type'')
         (tithe ''amount'') (tithe ''description'') None =
       \<lparr>Contribution.id' = ''c0ffee'', Contribution.memberId = JString ''M1'',
        Contribution.type = JString ''Tithe'', Contribution.amount = JNumber (Finite 50),
        Contribution.description = JString ''Sunday'', commitmentDate = Date 1700000000000,
        fulfillmentDate = None, Contribution.createdAt = Date 1700000000000\<rparr>"
    "new_PrayerRequest example_env (prayer ''memberId'') (prayer ''request'') =
       \<lparr>PrayerRequest.id' = ''c0ffee'', PrayerRequest.memberId = JString ''M1'',
        request = JString ''Health'', PrayerRequest.createdAt = Date 1700000000000\<rparr>"
    "new_Content example_env (sermon ''type'') (sermon ''title'') (sermon ''content'') =
       \<lparr>Content.id' = ''c0ffee'', Content.type = JString ''Sermon'',
        Content.title = JString ''Hope'', content = JString ''Text'',
        Content.createdAt = Date 1700000000000\<rparr>"
    by (simp_all add: new_Member_def new_Event_def new_Donation_def new_Contribution_def
        new_PrayerRequest_def new_Content_def example_env_def ana_body_def picnic_def donation50_def
        pledge_def tithe_def prayer_def sermon_def empty_body_def)
  have uid: "uuidv4 example_env = ''c0ffee''"
    by (simp add: example_env_def)
  have M: "get_members_id azle_null (snd (post_members example_env no_stores ana_body)) ''c0ffee'' =
     (200, Entity (Value (Record
        \<lparr>Member.id' = ''c0ffee'', name = JString ''Ana'', contact = JString ''a@x.com'',
         membershipStatus = JString ''Active'',
         Member.createdAt = Date 1700000000000\<rparr>))) \<and>
   Record \<lparr>Member.id' = ''c0ffee'', name = JString ''Ana'', contact = JString ''a@x.com'',
           membershipStatus = JString ''Active'', Member.createdAt = Date 1700000000000\<rparr>
     \<in> set (listed (get_members (snd (post_members example_env no_stores ana_body))))"
    using create_round_trip [where b = ana_body and e = example_env and s = no_stores and lib = azle_Opt] m
    unfolding recs uid by blast
  have E: "\<lparr>Event.id' = ''c0ffee'', Event.title = JString ''Picnic'',
    Event.description = JString ''Annual picnic'', dateTime = Date 1704067200000,
    location = JString ''Park'', Event.createdAt = Date 1700000000000\<rparr>
     \<in> set (listed (get_events (snd (post_events example_env no_stores picnic))))"
    using create_round_trip [where b = picnic and e = example_env and s = no_stores and lib = azle_Opt] ev
    unfolding recs by blast
  have D: "\<lparr>Donation.id' = ''c0ffee'', donorId = JString ''D1'',
    Donation.amount = JNumber (Finite 50), Donation.createdAt = Date 1700000000000\<rparr>
     \<in> set (listed (get_donations (snd (post_donations example_env no_stores donation50))))"
    using create_round_trip [where b = donation50 and e = example_env and s = no_stores and lib = azle_Opt] d
    unfolding recs by blast
  have P: "\<lparr>Contribution.id' = ''c0ffee'', Contribution.memberId = JString ''M1'',
    Contribution.type = JString ''Pledge'', Contribution.amount = JNumber (Finite 50),
    Contribution.description = JString ''Sunday'', commitmentDate = Date 1704067200000,
    fulfillmentDate = None, Contribution.createdAt = Date 1700000000000\<rparr>
     \<in> set (listed (get_contributions
                      (snd (post_contributions azle_Opt example_env example_stores pledge))))"
    using create_round_trip [where b = pledge and e = example_env and s = example_stores and lib = azle_Opt] p
    unfolding recs by blast
  have T: "\<lparr>Contribution.id' = ''c0ffee'', Contribution.memberId = JString ''M1'',
    Contribution.type = JString ''Tithe'', Contribution.amount = JNumber (Finite 50),
    Contribution.description = JString ''Sunday'', commitmentDate = Date 1700000000000,
    fulfillmentDate = None, Contribution.createdAt = Date 1700000000000\<rparr>
     \<in> set (listed (get_contributions
                      (snd (post_contributions azle_Opt example_env example_stores tithe))))"
    using create_round_trip [where b = tithe and e = example_env and s = example_stores and lib = azle_Opt] t
    unfolding recs by blast
  have R: "\<lparr>PrayerRequest.id' = ''c0ffee'', PrayerRequest.memberId = JString ''M1'',
    request = JString ''Health'', PrayerRequest.createdAt = Date 1700000000000\<rparr>
     \<in> set (listed (get_prayer_requests
                      (snd (post_prayer_requests example_env no_stores prayer))))"
    using create_round_trip [where b = prayer and e = example_env and s = no_stores and lib = azle_Opt] pr
    unfolding recs by blast
  have C: "\<lparr>Content.id' = ''c0ffee'', Content.type = JString ''Sermon'',
    Content.title = JString ''Hope'', content = JString ''Text'',
    Content.createdAt = Date 1700000000000\<rparr>
     \<in> set (listed (get_contents (snd (post_contents example_env no_stores sermon))))"
    using create_round_trip [where b = sermon and e = example_env and s = no_stores and lib = azle_Opt] ct
    unfolding recs by blast
  from rules M E D P T R C show ?thesis
    by blast
qed

section \<open>Donations\<close>

text \<open>
  A donation whose \<open>donorId\<close> is a non-empty string and whose \<open>amount\<close> is the number 0
  is rejected with the ValidationError: \<open>!req.body.amount\<close> holds for 0.
\<close>

theorem zero_donation_counterexample:
  "typeof (free_donation ''donorId'') = ''string'' \<and> free_donation ''donorId'' \<noteq> JString '''' \<and>
   typeof (free_donation ''amount'') = ''number'' \<and>
   ValidationError (fst (post_donations example_env no_stores free_donation)) \<and>
   created (fst (post_donations example_env no_stores free_donation)) = None"
  by (simp add: free_donation_def empty_body_def post_donations_def ValidationError_def created_def)

text \<open>
  C6, amended. \<open>createDonation\<close> succeeds, answering the created Donation with the fields
  as given and inserting it under its id, when \<open>donorId\<close> is a non-empty string and
  \<open>amount\<close> is a number other than zero; otherwise, and only then, it answers the
  ValidationError and the stores are unchanged.
\<close>

theorem donation_accepted_iff:
  "(Donation_rules b \<longrightarrow>
      post_donations e s b =
        ((201, Message ''Donation created successfully''
                 \<lparr>Donation.id' = uuidv4 e, donorId = b ''donorId'', Donation.amount = b ''amount'',
                  Donation.createdAt = Date (clock e 0)\<rparr>),
         s\<lparr>donationsStorage :=
              btree_insert (uuidv4 e)
                \<lparr>Donation.id' = uuidv4 e, donorId = b ''donorId'', Donation.amount = b ''amount'',
                 Donation.createdAt = Date (clock e 0)\<rparr>
                (donationsStorage s)\<rparr>)) \<and>
   (\<not> Donation_rules b \<longrightarrow>
      ValidationError (fst (post_donations e s b)) \<and> snd (post_donations e s b) = s) \<and>
   (ValidationError (fst (post_donations e s b)) \<longleftrightarrow>
      \<not> (nonempty_string (b ''donorId'') \<and> nonzero_number (b ''amount'')))"
  by (cases "Donation_rules b")
    (simp_all add: post_donations_valid post_donations_invalid ValidationError_def
      new_Donation_def Donation_rules_def)

theorem donation_accepted_iff_witness:
  "Donation_rules donation50 \<and> \<not> Donation_rules free_donation \<and>
   created (fst (post_donations example_env no_stores donation50))
     = Some \<lparr>Donation.id' = ''c0ffee'', donorId = JString ''D1'',
             Donation.amount = JNumber (Finite 50), Donation.createdAt = Date 1700000000000\<rparr> \<and>
   ValidationError (fst (post_donations example_env no_stores free_donation)) \<and>
   snd (post_donations example_env no_stores free_donation) = no_stores"
proof -
  have a: "Donation_rules donation50"
    by (simp add: Donation_rules_def donation50_def empty_body_def)
  have r: "\<not> Donation_rules free_donation"
    by (simp add: Donation_rules_def free_donation_def empty_body_def)
  from donation_accepted_iff [of donation50 example_env no_stores]
    donation_accepted_iff [of free_donation example_env no_stores] a r
  show ?thesis
    by (simp add: created_def example_env_def donation50_def empty_body_def)
qed

section \<open>Updating a member\<close>

text \<open>
  C7. The specification wants \<open>updateMember\<close> on an id that is a key of the Member store,
  with truthy \<open>name\<close>, \<open>contact\<close> and \<open>membershipStatus\<close> (strings or not), to replace
  these three fields of the stored record, insert the record again at the same id and
  answer it, and to answer the ValidationError when one of the three is falsy. The handler
  does the second with either release, and leaves the stores as they were. It does the
  first where \<open>get\<close> answers the record itself (release 0.23.0). Where \<open>get\<close> answers
  \<open>{Some: record}\<close> (releases 0.20 to 0.22) the three fields are assigned to that object:
  the handler stores and answers \<open>{Some: record, name, contact, membershipStatus}\<close>, in
  which the record has its old fields.
\<close>

theorem update_member_by_release:
  assumes "btree_get (membersStorage s) i = Some v"
  shows "(\<not> (truthy (b ''name'') \<and> truthy (b ''contact'') \<and> truthy (b ''membershipStatus'')) \<longrightarrow>
            put_members_id lib s i b = ((400, Error ''Incomplete member data''), s) \<and>
            ValidationError (fst (put_members_id lib s i b))) \<and>
         (truthy (b ''name'') \<and> truthy (b ''contact'') \<and> truthy (b ''membershipStatus'') \<longrightarrow>
            put_members_id azle_Opt s i b =
              ((200, Message ''Member updated successfully''
                       (Wrapped (Some v) (b ''name'') (b ''contact'') (b ''membershipStatus''))),
               s\<lparr>membersStorage :=
                    btree_insert i (Wrapped (Some v) (b ''name'') (b ''contact'')
                                      (b ''membershipStatus'')) (membersStorage s)\<rparr>) \<and>
            (\<forall>m. v = Record m \<longrightarrow>
               put_members_id azle_null s i b =
                 ((200, Message ''Member updated successfully''
                          (Record (m\<lparr>name := b ''name'', contact := b ''contact'',
                                     membershipStatus := b ''membershipStatus''\<rparr>))),
                  s\<lparr>membersStorage :=
                       btree_insert i
                         (Record (m\<lparr>name := b ''name'', contact := b ''contact'',
                                    membershipStatus := b ''membershipStatus''\<rparr>))
                         (membersStorage s)\<rparr>) \<and>
               get_members_id azle_null (snd (put_members_id azle_null s i b)) i =
                 (200, Entity (Value (Record (m\<lparr>name := b ''name'', contact := b ''contact'',
                                               membershipStatus := b ''membershipStatus''\<rparr>))))))"
  using assms
  by (cases lib)
    (auto simp: put_members_id_null put_members_id_Opt get_members_id_null btree_get_insert
      ValidationError_def)

theorem update_member_by_release_witness:
  "btree_get (membersStorage busy_stores) ''M1'' = Some (Record Ana) \<and>
   truthy (rename ''name'') \<and> truthy (rename ''contact'') \<and> truthy (rename ''membershipStatus'') \<and>
   typeof (rename ''name'') = ''number'' \<and> \<not> truthy (blank_rename ''contact'') \<and>
   put_members_id azle_Opt busy_stores ''M1'' blank_rename
     = ((400, Error ''Incomplete member data''), busy_stores) \<and>
   put_members_id azle_null busy_stores ''M1'' blank_rename
     = ((400, Error ''Incomplete member data''), busy_stores) \<and>
   fst (put_members_id azle_null busy_stores ''M1'' rename) =
     (200, Message ''Member updated successfully''
              (Record \<lparr>Member.id' = ''M1'', name = JNumber (Finite 5), contact = JBool True,
                       membershipStatus = JArray [], Member.createdAt = Date 1690000000000\<rparr>)) \<and>
   btree_get (membersStorage (snd (put_members_id azle_null busy_stores ''M1'' rename))) ''M1'' =
     Some (Record \<lparr>Member.id' = ''M1'', name = JNumber (Finite 5), contact = JBool True,
                   membershipStatus = JArray [], Member.createdAt = Date 1690000000000\<rparr>) \<and>
   fst (put_members_id azle_Opt busy_stores ''M1'' rename) =
     (200, Message ''Member updated successfully''
              (Wrapped (Some (Record Ana)) (JNumber (Finite 5)) (JBool True) (JArray []))) \<and>
   btree_get (membersStorage (snd (put_members_id azle_Opt busy_stores ''M1'' rename))) ''M1'' =
     Some (Wrapped (Some (Record Ana)) (JNumber (Finite 5)) (JBool True) (JArray []))"
proof -
  have g: "btree_get (membersStorage busy_stores) ''M1'' = Some (Record Ana)"
    by (simp add: busy_stores_def)
  have t: "truthy (rename ''name'') \<and> truthy (rename ''contact'') \<and>
           truthy (rename ''membershipStatus'')" "typeof (rename ''name'') = ''number''"
    "\<not> truthy (blank_rename ''contact'')"
    by (simp_all add: rename_def blank_rename_def empty_body_def)
  have f: "rename ''name'' = JNumber (Finite 5)" "rename ''contact'' = JBool True"
    "rename ''membershipStatus'' = JArray []"
    by (simp_all add: rename_def)
  from update_member_by_release [OF g, of rename azle_Opt]
    update_member_by_release [OF g, of blank_rename azle_Opt]
    update_member_by_release [OF g, of blank_rename azle_null] g t
  show ?thesis
    unfolding f by (simp add: btree_get_insert Ana_def)
qed

section \<open>Events\<close>

text \<open>
  An event whose \<open>dateTime\<close> is present and is no timestamp is created all the same: the
  number \<open>2^60\<close> is beyond the range of time values, \<open>new Date\<close> of it is an invalid date,
  and the event is stored and listed with that invalid date.
\<close>

theorem event_date_counterexample:
  "truthy (far_picnic ''dateTime'') \<and>
   new_Date example_env (far_picnic ''dateTime'') = Some Invalid_Date \<and>
   \<not> ValidationError (fst (post_events example_env no_stores far_picnic)) \<and>
   map_option dateTime (created (fst (post_events example_env no_stores far_picnic)))
     = Some Invalid_Date \<and>
   map dateTime (listed (get_events (snd (post_events example_env no_stores far_picnic))))
     = [Invalid_Date]"
  by (simp add: far_picnic_def picnic_def empty_body_def post_events_def ValidationError_def
      Let_def new_Event_def no_stores_def btree_values_def)

text \<open>
  C8, amended. \<open>createEvent\<close> answers the ValidationError exactly when \<open>title\<close>,
  \<open>description\<close> or \<open>location\<close> is not a non-empty string or \<open>dateTime\<close> is falsy; it
  changes the stores only by inserting the Event it answers; and every Event it inserts
  has non-empty strings as \<open>title\<close>, \<open>description\<close> and \<open>location\<close> and has as
  \<open>dateTime\<close> the \<open>Date\<close> constructed from the truthy input value, a valid date or not.
  It creates the Event whenever the rule holds and the constructor of \<open>Date\<close> returns.
\<close>

theorem event_invariant:
  "(ValidationError (fst (post_events e s b)) \<longleftrightarrow> \<not> Event_rules b) \<and>
   (created (fst (post_events e s b)) = None \<longrightarrow> snd (post_events e s b) = s) \<and>
   (Event_rules b \<and> new_Date e (b ''dateTime'') \<noteq> None \<longrightarrow>
      created (fst (post_events e s b)) \<noteq> None) \<and>
   (\<forall>ev. created (fst (post_events e s b)) = Some ev \<longrightarrow>
      nonempty_string (Event.title ev) \<and> nonempty_string (Event.description ev) \<and>
      nonempty_string (location ev) \<and> truthy (b ''dateTime'') \<and>
      new_Date e (b ''dateTime'') = Some (dateTime ev) \<and>
      snd (post_events e s b) = s\<lparr>eventsStorage := btree_insert (Event.id' ev) ev (eventsStorage s)\<rparr>)"
  using post_events_cases [of b e s]
  by (auto simp: ValidationError_def new_Event_def Event_rules_def)

theorem event_invariant_witness:
  "Event_rules picnic \<and> new_Date example_env (picnic ''dateTime'') \<noteq> None \<and>
   \<not> Event_rules empty_body \<and>
   ValidationError (fst (post_events example_env no_stores empty_body)) \<and>
   created (fst (post_events example_env no_stores empty_body)) = None \<and>
   snd (post_events example_env no_stores empty_body) = no_stores \<and>
   created (fst (post_events example_env no_stores picnic)) =
     Some \<lparr>Event.id' = ''c0ffee'', Event.title = JString ''Picnic'',
            Event.description = JString ''Annual picnic'', dateTime = Date 1704067200000,
            location = JString ''Park'', Event.createdAt = Date 1700000000000\<rparr>"
proof -
  have r: "Event_rules picnic" "\<not> Event_rules empty_body"
    by (simp_all add: Event_rules_def picnic_def empty_body_def)
  have d: "new_Date example_env (picnic ''dateTime'') = Some (Date 1704067200000)"
    by (simp add: picnic_def example_env_def)
  have c: "created (fst (post_events example_env no_stores picnic)) =
     Some \<lparr>Event.id' = ''c0ffee'', Event.title = JString ''Picnic'',
            Event.description = JString ''Annual picnic'', dateTime = Date 1704067200000,
            location = JString ''Park'', Event.createdAt = Date 1700000000000\<rparr>"
    by (simp add: post_events_valid [OF r(1) d] new_Event_def)
      (simp add: picnic_def example_env_def empty_body_def)
  have n: "created (fst (post_events example_env no_stores empty_body)) = None"
    by (simp add: post_events_invalid [OF r(2)])
  from event_invariant [of example_env no_stores empty_body]
    event_invariant [of example_env no_stores picnic] r d c n
  show ?thesis
    by simp
qed

section \<open>What an update leaves alone\<close>

text \<open>
  C9. The specification wants \<open>updateMember\<close> on an id that is a key of the Member store
  to change only \<open>name\<close>, \<open>contact\<close> and \<open>membershipStatus\<close> of the record at that id: its
  \<open>id\<close> and \<open>createdAt\<close>, every other record and the other five stores stay as they were.
  With either release the handler leaves the value of every other id as it was, adds and
  removes no key when the keys are in order, and leaves the other five stores as they
  were. Where \<open>get\<close> answers the record itself (release 0.23.0) the record at the id keeps
  its \<open>id\<close> and \<open>createdAt\<close> and is the old one but for the three fields. Where \<open>get\<close>
  answers \<open>{Some: record}\<close> (releases 0.20 to 0.22) a complete update replaces the value
  at the id by \<open>{Some: record, name, contact, membershipStatus}\<close>, which has no \<open>id\<close> and
  no \<open>createdAt\<close> of its own and holds the record with its old fields.
\<close>

theorem put_member_frame_by_release:
  assumes "btree_get (membersStorage s) i = Some v"
  shows "(\<forall>k. k \<noteq> i \<longrightarrow>
            btree_get (membersStorage (snd (put_members_id lib s i b))) k
              = btree_get (membersStorage s) k) \<and>
         (key_ordered (membersStorage s) \<longrightarrow>
            map fst (membersStorage (snd (put_members_id lib s i b)))
              = map fst (membersStorage s)) \<and>
         eventsStorage (snd (put_members_id lib s i b)) = eventsStorage s \<and>
         donationsStorage (snd (put_members_id lib s i b)) = donationsStorage s \<and>
         prayerRequestsStorage (snd (put_members_id lib s i b)) = prayerRequestsStorage s \<and>
         contentStorage (snd (put_members_id lib s i b)) = contentStorage s \<and>
         contributionsStorage (snd (put_members_id lib s i b)) = contributionsStorage s \<and>
         (\<forall>m. v = Record m \<longrightarrow>
            (\<exists>m'. btree_get (membersStorage (snd (put_members_id azle_null s i b))) i
                     = Some (Record m') \<and>
                  Member.id' m' = Member.id' m \<and> Member.createdAt m' = Member.createdAt m \<and>
                  m'\<lparr>name := name m, contact := contact m,
                      membershipStatus := membershipStatus m\<rparr> = m)) \<and>
         btree_get (membersStorage (snd (put_members_id azle_Opt s i b))) i =
           Some (if truthy (b ''name'') \<and> truthy (b ''contact'') \<and> truthy (b ''membershipStatus'')
                 then Wrapped (Some v) (b ''name'') (b ''contact'') (b ''membershipStatus'')
                 else v)"
  using assms
  by (cases lib)
    (auto simp: put_members_id_null put_members_id_Opt btree_get_insert btree_insert_present)

theorem put_member_frame_by_release_witness:
  "btree_get (membersStorage busy_stores) ''M1'' = Some (Record Ana) \<and>
   key_ordered (membersStorage busy_stores) \<and>
   btree_get (membersStorage (snd (put_members_id azle_null busy_stores ''M1'' rename))) ''M2''
     = Some (Record Ben) \<and>
   btree_get (membersStorage (snd (put_members_id azle_Opt busy_stores ''M1'' rename))) ''M2''
     = Some (Record Ben) \<and>
   map fst (membersStorage (snd (put_members_id azle_null busy_stores ''M1'' rename)))
     = [''M1'', ''M2''] \<and>
   map fst (membersStorage (snd (put_members_id azle_Opt busy_stores ''M1'' rename)))
     = [''M1'', ''M2''] \<and>
   map fst (eventsStorage (snd (put_members_id azle_null busy_stores ''M1'' rename))) = [''E1''] \<and>
   map fst (donationsStorage (snd (put_members_id azle_null busy_stores ''M1'' rename))) = [''D1''] \<and>
   map fst (prayerRequestsStorage (snd (put_members_id azle_null busy_stores ''M1'' rename)))
     = [''P1''] \<and>
   map fst (contentStorage (snd (put_members_id azle_null busy_stores ''M1'' rename))) = [''S1''] \<and>
   contributionsStorage (snd (put_members_id azle_Opt busy_stores ''M1'' rename))
     = contributionsStorage busy_stores \<and>
   map fst (contributionsStorage busy_stores) = [''C1''] \<and>
   btree_get (membersStorage (snd (put_members_id azle_null busy_stores ''M1'' rename))) ''M1'' =
     Some (Record \<lparr>Member.id' = ''M1'', name = JNumber (Finite 5), contact = JBool True,
                   membershipStatus = JArray [], Member.createdAt = Date 1690000000000\<rparr>) \<and>
   btree_get (membersStorage (snd (put_members_id azle_Opt busy_stores ''M1'' rename))) ''M1'' =
     Some (Wrapped (Some (Record Ana)) (JNumber (Finite 5)) (JBool True) (JArray []))"
proof -
  have g: "btree_get (membersStorage busy_stores) ''M1'' = Some (Record Ana)"
    "btree_get (membersStorage busy_stores) ''M2'' = Some (Record Ben)"
    by (simp_all add: busy_stores_def)
  have o: "key_ordered (membersStorage busy_stores)"
    by (simp add: busy_stores_def key_ordered_def)
  have k: "map fst (membersStorage busy_stores) = [''M1'', ''M2'']"
    "map fst (eventsStorage busy_stores) = [''E1'']"
    "map fst (donationsStorage busy_stores) = [''D1'']"
    "map fst (prayerRequestsStorage busy_stores) = [''P1'']"
    "map fst (contentStorage busy_stores) = [''S1'']"
    "map fst (contributionsStorage busy_stores) = [''C1'']"
    by (simp_all add: busy_stores_def)
  have d: "''M2'' \<noteq> ''M1''"
    by simp
  have t: "truthy (rename ''name'') \<and> truthy (rename ''contact'') \<and>
           truthy (rename ''membershipStatus'')"
    by (simp add: rename_def empty_body_def)
  have f: "rename ''name'' = JNumber (Finite 5)" "rename ''contact'' = JBool True"
    "rename ''membershipStatus'' = JArray []"
    by (simp_all add: rename_def)
  have n: "btree_get (membersStorage (snd (put_members_id azle_null busy_stores ''M1'' rename))) ''M1'' =
     Some (Record \<lparr>Member.id' = ''M1'', name = JNumber (Finite 5), contact = JBool True,
                   membershipStatus = JArray [], Member.createdAt = Date 1690000000000\<rparr>)"
    using g(1) t by (simp add: put_members_id_null btree_get_insert f Ana_def)
  from put_member_frame_by_release [OF g(1), of azle_null rename]
    put_member_frame_by_release [OF g(1), of azle_Opt rename] g o k d t n
  show ?thesis
    unfolding f by (simp add: Ana_def)
qed

section \<open>The commitment date of a contribution that is no pledge\<close>

text \<open>
  C10. For a \<open>createContribution\<close> input whose type is not \<open>"Pledge"\<close>, the outcome does
  not depend on the \<open>commitmentDate\<close> supplied; the Contribution is created whenever the
  validation rule holds and the member exists; and the created Contribution, stored under
  its id, has the clock reading taken by its constructor as \<open>commitmentDate\<close> (the reading
  for \<open>createdAt\<close> is the next one), and \<open>null\<close> as \<open>fulfillmentDate\<close>.
\<close>

theorem commitment_date_ignored_unless_pledge:
  assumes "b ''type'' \<noteq> JString ''Pledge''"
  shows "post_contributions lib e s (b(''commitmentDate'' := v)) = post_contributions lib e s b \<and>
         (Contribution_rules b \<and> btree_get_value (membersStorage s) (b ''memberId'') = Some m \<longrightarrow>
            created (fst (post_contributions lib e s b)) \<noteq> None) \<and>
         (\<forall>c. created (fst (post_contributions lib e s b)) = Some c \<longrightarrow>
            commitmentDate c = Date (clock e 0) \<and> fulfillmentDate c = None \<and>
            Contribution.createdAt c = Date (clock e 1) \<and>
            btree_get (contributionsStorage (snd (post_contributions lib e s b))) (Contribution.id' c)
              = Some c)"
proof (intro conjI impI allI)
  show "post_contributions lib e s (b(''commitmentDate'' := v)) = post_contributions lib e s b"
    using assms
    by (auto simp: post_contributions_def Let_def get_answer_defined split: option.splits)
next
  assume "Contribution_rules b \<and> btree_get_value (membersStorage s) (b ''memberId'') = Some m"
  then show "created (fst (post_contributions lib e s b)) \<noteq> None"
    using assms by (simp add: post_contributions_valid created_def Let_def)
next
  fix c
  assume c: "created (fst (post_contributions lib e s b)) = Some c"
  show "commitmentDate c = Date (clock e 0)" "fulfillmentDate c = None"
    "Contribution.createdAt c = Date (clock e 1)"
    "btree_get (contributionsStorage (snd (post_contributions lib e s b))) (Contribution.id' c) = Some c"
    using assms c
    by (auto simp: post_contributions_def created_def Let_def new_Contribution_def
        get_answer_defined
        btree_get_insert split: if_splits option.splits)
qed

theorem commitment_date_ignored_unless_pledge_witness:
  "tithe ''type'' \<noteq> JString ''Pledge'' \<and> Contribution_rules tithe \<and>
   btree_get_value (membersStorage example_stores) (tithe ''memberId'') = Some (Record Ana) \<and>
   post_contributions azle_Opt example_env example_stores dated_tithe
     = post_contributions azle_Opt example_env example_stores tithe \<and>
   created (fst (post_contributions azle_Opt example_env example_stores tithe)) =
     Some \<lparr>Contribution.id' = ''c0ffee'', Contribution.memberId = JString ''M1'',
            Contribution.type = JString ''Tithe'', Contribution.amount = JNumber (Finite 50),
            Contribution.description = JString ''Sunday'', commitmentDate = Date 1700000000000,
            fulfillmentDate = None, Contribution.createdAt = Date 1700000000000\<rparr>"
proof -
  have t: "tithe ''type'' \<noteq> JString ''Pledge''"
    by (simp add: tithe_def)
  have r: "Contribution_rules tithe"
    by (simp add: Contribution_rules_def tithe_def empty_body_def)
  have g: "btree_get_value (membersStorage example_stores) (tithe ''memberId'') = Some (Record Ana)"
    by (simp add: tithe_def example_stores_def no_stores_def)
  have c: "created (fst (post_contributions azle_Opt example_env example_stores tithe)) =
     Some \<lparr>Contribution.id' = ''c0ffee'', Contribution.memberId = JString ''M1'',
            Contribution.type = JString ''Tithe'', Contribution.amount = JNumber (Finite 50),
            Contribution.description = JString ''Sunday'', commitmentDate = Date 1700000000000,
            fulfillmentDate = None, Contribution.createdAt = Date 1700000000000\<rparr>"
    using g t
    by (simp add: post_contributions_valid [OF r] created_def Let_def new_Contribution_def
        example_env_def) (simp add: tithe_def empty_body_def)
  from commitment_date_ignored_unless_pledge
    [where b = tithe and e = example_env and s = example_stores
      and v = "JString ''2024-01-01T00:00:00.000Z''" and m = "Record Ana" and lib = azle_Opt, OF t]
    t r g c
  show ?thesis
    by (simp add: dated_tithe_def)
qed

end
